theory Spec2Isabelle
  imports Complex_Main
begin

section \<open>JavaScript values used by the speaker\<close>

text \<open>
  The numeric fields of a Sound are JavaScript values: a number, \<open>NaN\<close> (the unary plus
  of a missing option) or \<open>undefined\<close> (a field the constructor never assigned).
  Numbers are idealised as reals (IEEE rounding and the infinities are not modelled).
\<close>

datatype jsval = Undefined | NaN | Num real

text \<open>Truthiness of a value in a condition: \<open>0\<close>, \<open>NaN\<close> and \<open>undefined\<close> are falsy.\<close>

fun truthy :: "jsval \<Rightarrow> bool" where
  "truthy (Num r) = (r \<noteq> 0)"
| "truthy NaN = False"
| "truthy Undefined = False"

text \<open>The unary plus \<open>+x\<close>.\<close>

fun to_number :: "jsval \<Rightarrow> jsval" where
  "to_number (Num r) = Num r"
| "to_number NaN = NaN"
| "to_number Undefined = NaN"

text \<open>
  Arithmetic propagates \<open>NaN\<close>. Every division of the source has a non-zero divisor
  (a literal, or a difference guarded by \<open>!==\<close>), so the quotient by zero is never used.
\<close>

fun jadd :: "jsval \<Rightarrow> jsval \<Rightarrow> jsval" where
  "jadd (Num a) (Num b) = Num (a + b)"
| "jadd _ _ = NaN"

fun jsub :: "jsval \<Rightarrow> jsval \<Rightarrow> jsval" where
  "jsub (Num a) (Num b) = Num (a - b)"
| "jsub _ _ = NaN"

fun jmul :: "jsval \<Rightarrow> jsval \<Rightarrow> jsval" where
  "jmul (Num a) (Num b) = Num (a * b)"
| "jmul _ _ = NaN"

fun jdiv :: "jsval \<Rightarrow> jsval \<Rightarrow> jsval" where
  "jdiv (Num a) (Num b) = Num (a / b)"
| "jdiv _ _ = NaN"

text \<open>Relational operators are false as soon as one side is not a number.\<close>

fun jlt :: "jsval \<Rightarrow> jsval \<Rightarrow> bool" where
  "jlt (Num a) (Num b) = (a < b)"
| "jlt _ _ = False"

fun jle :: "jsval \<Rightarrow> jsval \<Rightarrow> bool" where
  "jle (Num a) (Num b) = (a \<le> b)"
| "jle _ _ = False"

text \<open>Strict equality \<open>===\<close>: \<open>NaN\<close> equals nothing, \<open>undefined\<close> only itself.\<close>

fun strict_eq :: "jsval \<Rightarrow> jsval \<Rightarrow> bool" where
  "strict_eq (Num a) (Num b) = (a = b)"
| "strict_eq Undefined Undefined = True"
| "strict_eq _ _ = False"

section \<open>The Sound object (sound.js)\<close>

datatype event = Play | Pause | Finish | Elapse

text \<open>
  The \<open>optionsAndCallbacks\<close> argument of \<open>create\<close>. A missing property is
  \<open>Undefined\<close>; \<open>opt_handlers\<close> lists the events for which the object has a handler
  (\<open>ev in options\<close>).
\<close>

record options =
  opt_startPosition :: jsval
  opt_endPosition :: jsval
  opt_fadeInSeconds :: jsval
  opt_fadeOutSeconds :: jsval
  opt_gain :: jsval
  opt_handlers :: "event list"

text \<open>
  A Sound. Its \<open>id\<close> is not a field here: it is the key under which the object is kept
  in the store of the speaker state below. \<open>callbacks\<close> are the events that have a
  subscriber.
\<close>

record Sound =
  url :: string
  startPosition :: jsval
  endPosition :: jsval
  fadeInSeconds :: jsval
  fadeInStart :: jsval
  fadeInEnd :: jsval
  fadeOutSeconds :: jsval
  fadeOutStart :: jsval
  fadeOutEnd :: jsval
  gain :: jsval
  callbacks :: "event list"

text \<open>The constructor \<open>Sound(speaker, options, id, url)\<close>.\<close>

definition new_Sound :: "string \<Rightarrow> options option \<Rightarrow> Sound" where
  "new_Sound u opts =
     (case opts of
        None \<Rightarrow>
          \<lparr> url = u, startPosition = Undefined, endPosition = Undefined,
            fadeInSeconds = Undefined, fadeInStart = Undefined, fadeInEnd = Undefined,
            fadeOutSeconds = Undefined, fadeOutStart = Undefined, fadeOutEnd = Undefined,
            gain = Num 0, callbacks = [] \<rparr>
      | Some ops \<Rightarrow>
          (let sp = to_number (opt_startPosition ops);
               ep = to_number (opt_endPosition ops);
               fis = to_number (opt_fadeInSeconds ops);
               fi_start = (if truthy fis
                           then (if truthy sp then jdiv sp (Num 1000) else Num 0)
                           else Num 0);
               fi_end = (if truthy fis then jadd fi_start fis else Num 0);
               fos = to_number (opt_fadeOutSeconds ops);
               fo_start = (if truthy fos
                           then (if truthy ep then jsub (jdiv ep (Num 1000)) fos else Num 0)
                           else Undefined);
               fo_end = (if truthy fos
                         then (if truthy ep then jdiv ep (Num 1000) else Num 0)
                         else Undefined)
           in \<lparr> url = u, startPosition = sp, endPosition = ep,
                fadeInSeconds = fis, fadeInStart = fi_start, fadeInEnd = fi_end,
                fadeOutSeconds = fos, fadeOutStart = fo_start, fadeOutEnd = fo_end,
                gain = (if truthy (opt_gain ops) then opt_gain ops else Num 0),
                callbacks = filter (\<lambda>ev. ev \<in> set (opt_handlers ops))
                              [Play, Pause, Finish, Elapse] \<rparr>))"

text \<open>\<open>Sound.prototype.gainAdjustedVolume(volume)\<close>.\<close>

definition gainAdjustedVolume :: "Sound \<Rightarrow> real \<Rightarrow> real" where
  "gainAdjustedVolume sd volume =
     (case gain sd of
        Num g \<Rightarrow>
          (if g = 0 then volume / 100
           else max (min ((volume / 100) * (50 * 10 powr (g / 20))) 100) 0 / 100)
      | _ \<Rightarrow> volume / 100)"

text \<open>
  The volume \<open>_setVolume\<close> computes for a sound at media time \<open>currentTime\<close> under the
  session volume \<open>v\<close> (the variable \<open>calculatedVolume\<close> of the source).
\<close>

definition calculatedVolume :: "real \<Rightarrow> Sound \<Rightarrow> real \<Rightarrow> jsval" where
  "calculatedVolume v sd currentTime =
     (let t = Num currentTime;
          cv = Num (gainAdjustedVolume sd v)
      in if \<not> strict_eq (fadeInStart sd) (fadeInEnd sd) \<and> jlt t (fadeInStart sd)
         then Num 0
         else if \<not> strict_eq (fadeInStart sd) (fadeInEnd sd)
                 \<and> jle (fadeInStart sd) t \<and> jle t (fadeInEnd sd)
         then jmul (jdiv (jsub t (fadeInStart sd))
                         (jsub (fadeInEnd sd) (fadeInStart sd))) cv
         else if \<not> strict_eq (fadeOutStart sd) (fadeOutEnd sd) \<and> jlt (fadeOutEnd sd) t
         then Num 0
         else if \<not> strict_eq (fadeOutStart sd) (fadeOutEnd sd)
                 \<and> jle (fadeOutStart sd) t \<and> jle t (fadeOutEnd sd)
         then jmul (jsub (Num 1)
                         (jdiv (jsub t (fadeOutStart sd))
                               (jsub (fadeOutEnd sd) (fadeOutStart sd)))) cv
         else cv)"

section \<open>Audio players, slots and the speaker state\<close>

text \<open>
  The silence clip (the non-iOS value of the constant \<open>SILENCE\<close>).
\<close>

definition SILENCE :: string where
  "SILENCE = ''data:audio/wav;base64,UklGRigAAABXQVZFZm10IBIAAAABAAEARKwAAIhYAQACABAAAABkYXRhAgAAAAEA''"

text \<open>
  A player object, as the speaker reads and writes it.

  In the AudioContext variant it is an instance of the class \<open>AudioPlayer\<close> (lines
  905-945): the fields \<open>src\<close> (a string), \<open>paused\<close>, \<open>currentTime\<close> and \<open>duration\<close>
  (numbers) are those its constructor assigns; \<open>play()\<close> and \<open>pause()\<close> write \<open>paused\<close>.

  In the Howl variant it is a \<open>Howl\<close> of the library howler, on which the speaker reads
  and assigns the same property names. A \<open>Howl\<close> has no property \<open>src\<close> or
  \<open>currentTime\<close>: they are \<open>undefined\<close> (\<open>None\<close>, \<open>Undefined\<close>) until the speaker
  assigns one. Its \<open>duration\<close> is a method, so the property read is a function object and
  never a number. What a \<open>Howl\<close> answers through its methods is kept beside the
  properties: \<open>paused\<close> is false between \<open>play()\<close> and \<open>pause()\<close>, \<open>seek_position\<close> is
  the position \<open>seek()\<close> returns, \<open>loaded\<close> is \<open>_state === "loaded"\<close>, and
  \<open>player_volume\<close> is the volume last passed to \<open>volume(v)\<close>.
\<close>

record AudioPlayer =
  src :: "string option"
  paused :: bool
  currentTime :: jsval
  duration :: jsval
  seek_position :: real
  loaded :: bool
  player_volume :: jsval

text \<open>\<open>playing()\<close> of a Howl: it plays once its media is loaded, unless paused.\<close>

definition playing :: "AudioPlayer \<Rightarrow> bool" where
  "playing a = (loaded a \<and> \<not> paused a)"

text \<open>
  One of the objects held in \<open>active\<close>, \<open>fading\<close> and \<open>preparing\<close>: the audio player, the
  Sound bound to it (by id, \<open>None\<close> for \<open>null\<close>), the cached volume, the value of its gain
  node and the deferred-pause flag. Each such object owns exactly one AudioPlayer, so
  comparing players (\<open>audioPlayer === this.active.audio\<close>) is comparing addresses of
  these objects.
\<close>

record audioGroup =
  slot_url :: string
  sound :: "nat option"
  volume :: jsval
  gain_value :: jsval
  audio :: AudioPlayer
  pauseAfterPlay :: bool

text \<open>
  The asynchronous calls whose completion is still outstanding: the three players of
  \<open>initializeAudio\<close>, a player being created by \<open>_prepare\<close> (with the Sound whose
  \<open>assemblePlay\<close> is chained on it, if any), an \<open>assemblePlay\<close> whose turn has come but
  which has not run yet (the promise it is chained on is resolved), the \<open>play()\<close> of
  \<open>assemblePlay\<close> (slot \<open>me\<close>, Sound), and the two \<open>play()\<close> calls of the resume
  branch.
\<close>

datatype pending =
    InitPending string
  | PreparePending string "nat option"
  | AssemblePending nat
  | StartPending nat nat
  | ResumePending nat
  | FadingResumePending

text \<open>
  The Speaker. The three roles are references (addresses in the store \<open>slots\<close>, \<open>None\<close> for
  \<open>null\<close>), so that the swaps of the source alias as they do there; \<open>nslots\<close> is the next
  free address. \<open>outstandingSounds\<close> holds the keys of the registry in insertion order (the
  value under key \<open>i\<close> is the Sound \<open>sounds st i\<close>). \<open>emitted\<close> records every
  \<open>sound.trigger(event)\<close> with the Sound's id and whether a subscriber heard it.
\<close>

record speaker =
  vol :: real
  outstandingSounds :: "nat list"
  active :: "nat option"
  fading :: "nat option"
  preparing :: "nat option"
  prepareWhenReady :: "string option"
  slots :: "nat \<Rightarrow> audioGroup"
  nslots :: nat
  sounds :: "nat \<Rightarrow> Sound"
  idCounter :: nat
  promises :: "pending list"
  emitted :: "(nat \<times> event \<times> bool) list"

text \<open>A handler either runs to its end or stops at a TypeError (a property of \<open>null\<close>);
  the state reached up to the throw persists.\<close>

datatype outcome = Done speaker | TypeError speaker

fun state_of :: "outcome \<Rightarrow> speaker" where
  "state_of (Done st) = st"
| "state_of (TypeError st) = st"

fun then_do :: "outcome \<Rightarrow> (speaker \<Rightarrow> outcome) \<Rightarrow> outcome" where
  "then_do (Done st) k = k st"
| "then_do (TypeError st) k = TypeError st"

definition empty_group :: audioGroup where
  "empty_group = \<lparr> slot_url = [], sound = None, volume = Undefined, gain_value = Undefined,
     audio = \<lparr> src = None, paused = True, currentTime = Undefined, duration = Undefined,
               seek_position = 0, loaded = False, player_volume = Undefined \<rparr>,
     pauseAfterPlay = False \<rparr>"

text \<open>The prototype's initial fields: no slots, volume 100, empty registry.\<close>

definition new_Speaker :: speaker where
  "new_Speaker = \<lparr> vol = 100, outstandingSounds = [], active = None, fading = None,
     preparing = None, prepareWhenReady = None, slots = (\<lambda>_. empty_group), nslots = 0,
     sounds = (\<lambda>_. new_Sound [] None), idCounter = 0, promises = [], emitted = [] \<rparr>"

definition upd_group :: "nat \<Rightarrow> (audioGroup \<Rightarrow> audioGroup) \<Rightarrow> speaker \<Rightarrow> speaker" where
  "upd_group a f st = st\<lparr>slots := (slots st)(a := f (slots st a))\<rparr>"

definition upd_audio :: "nat \<Rightarrow> (AudioPlayer \<Rightarrow> AudioPlayer) \<Rightarrow> speaker \<Rightarrow> speaker" where
  "upd_audio a f st = upd_group a (\<lambda>g. g\<lparr>audio := f (audio g)\<rparr>) st"

definition upd_sound :: "nat \<Rightarrow> (Sound \<Rightarrow> Sound) \<Rightarrow> speaker \<Rightarrow> speaker" where
  "upd_sound s f st = st\<lparr>sounds := (sounds st)(s := f (sounds st s))\<rparr>"

definition add_promise :: "pending \<Rightarrow> speaker \<Rightarrow> speaker" where
  "add_promise p st = st\<lparr>promises := promises st @ [p]\<rparr>"

text \<open>
  Modelled from the spec: the Events mixin (\<open>./events\<close> is not among the sources), "a narrow
  publish/subscribe interface (on(event, handler), trigger(event, ...args), off())".
  \<open>trigger\<close> reaches the handlers subscribed to the event; \<open>off()\<close> unsubscribes all.
\<close>

definition trigger :: "nat \<Rightarrow> event \<Rightarrow> speaker \<Rightarrow> speaker" where
  "trigger s ev st =
     st\<lparr>emitted := emitted st @ [(s, ev, ev \<in> set (callbacks (sounds st s)))]\<rparr>"

definition off :: "nat \<Rightarrow> speaker \<Rightarrow> speaker" where
  "off s st = upd_sound s (\<lambda>sd. sd\<lparr>callbacks := []\<rparr>) st"

text \<open>
  Modelled from the spec: \<open>uniqueId\<close> of \<open>./util\<close> (not among the sources); the spec has the
  id "unique for the process lifetime" and \<open>create\<close> allocate "a fresh id". It is a
  counter: the id \<open>feed-play-n\<close> is represented by \<open>n\<close>.
\<close>

definition uniqueId :: "speaker \<Rightarrow> nat \<times> speaker" where
  "uniqueId st = (Suc (idCounter st), st\<lparr>idCounter := Suc (idCounter st)\<rparr>)"

section \<open>The speaker's operations (AudioContext variant)\<close>

text \<open>
  \<open>_setVolume\<close> reads the media time from \<open>audioGroup.audio.currentTime\<close>. When that is
  a number the volume is \<open>calculatedVolume\<close> at it; when it is not (\<open>undefined\<close> on a
  Howl, or \<open>NaN\<close>) every comparison of the chain is false and the volume stays the
  gain-adjusted one.
\<close>

definition volume_at :: "real \<Rightarrow> Sound \<Rightarrow> jsval \<Rightarrow> jsval" where
  "volume_at v sd ct =
     (case ct of
        Num t \<Rightarrow> calculatedVolume v sd t
      | _ \<Rightarrow> Num (gainAdjustedVolume sd v))"

text \<open>\<open>_setVolume(audioGroup, sound)\<close>; the sound defaults to the group's bound Sound.\<close>

definition setVolume' :: "nat \<Rightarrow> nat option \<Rightarrow> speaker \<Rightarrow> outcome" where
  "setVolume' g sopt st =
     (case (case sopt of Some s \<Rightarrow> Some s | None \<Rightarrow> sound (slots st g)) of
        None \<Rightarrow> TypeError st
      | Some s \<Rightarrow>
          (let cv = volume_at (vol st) (sounds st s) (currentTime (audio (slots st g)))
           in Done (upd_group g (\<lambda>x. x\<lparr>gain_value := cv, volume := cv\<rparr>) st)))"

text \<open>
  \<open>_prepare(url, startPosition)\<close>. When the preparing player points elsewhere a new
  player is requested; \<open>cont\<close> is the Sound whose \<open>assemblePlay\<close> the caller chains on the
  returned promise (\<open>_playSound\<close>), \<open>None\<close> when the caller drops the promise.
\<close>

definition prepare' :: "string \<Rightarrow> jsval \<Rightarrow> nat option \<Rightarrow> speaker \<Rightarrow> outcome" where
  "prepare' u startPos cont st =
     (let st1 = st\<lparr>prepareWhenReady := None\<rparr>
      in case preparing st1 of
           None \<Rightarrow> TypeError st1
         | Some p \<Rightarrow>
             if src (audio (slots st1 p)) \<noteq> Some u
             then Done (add_promise (PreparePending u cont) st1)
             else if truthy startPos
                     \<and> \<not> strict_eq (currentTime (audio (slots st1 p))) startPos
             then Done (upd_audio p (\<lambda>a. a\<lparr>currentTime := jdiv startPos (Num 1000)\<rparr>) st1)
             else Done st1)"

text \<open>\<open>prepare(url)\<close>.\<close>

definition prepare :: "string \<Rightarrow> speaker \<Rightarrow> outcome" where
  "prepare u st =
     (case active st of
        None \<Rightarrow> Done (st\<lparr>prepareWhenReady := Some u\<rparr>)
      | Some a \<Rightarrow>
          if src (audio (slots st a)) = Some SILENCE then prepare' u (Num 0) None st
          else Done (st\<lparr>prepareWhenReady := Some u\<rparr>))"

text \<open>The first statements of \<open>create\<close>: a Sound with a new id, stored in the registry
  under that id.\<close>

definition register_sound :: "string \<Rightarrow> options option \<Rightarrow> speaker \<Rightarrow> speaker" where
  "register_sound u opts st =
     (let i = fst (uniqueId st);
          st0 = snd (uniqueId st)
      in st0\<lparr>sounds := (sounds st0)(i := new_Sound u opts),
              outstandingSounds :=
                (if i \<in> set (outstandingSounds st0) then outstandingSounds st0
                 else outstandingSounds st0 @ [i])\<rparr>)"

text \<open>\<open>create(url, optionsAndCallbacks)\<close>: the new Sound's id and the outcome.\<close>

definition create :: "string \<Rightarrow> options option \<Rightarrow> speaker \<Rightarrow> nat \<times> outcome" where
  "create u opts st =
     (let i = fst (uniqueId st);
          st1 = register_sound u opts st
      in (i, case active st1 of
               None \<Rightarrow> Done (st1\<lparr>prepareWhenReady := Some u\<rparr>)
             | Some a \<Rightarrow>
                 (case preparing st1 of
                    None \<Rightarrow> TypeError st1
                  | Some p \<Rightarrow>
                      if src (audio (slots st1 p)) = Some SILENCE
                      then prepare' u (startPosition (sounds st1 i)) None st1
                      else Done st1)))"

text \<open>
  The slot a resolved \<open>_createAudioPlayer(url)\<close> yields (lines 1234-1283): a fresh
  object with a player on \<open>url\<close> that is paused, at the context's current time \<open>t\<close>, with
  the decoded buffer's duration \<open>d\<close> (so its media is loaded); volume \<open>DEFAULT_VOLUME\<close>,
  gain node at its default.
\<close>

definition new_group :: "string \<Rightarrow> real \<Rightarrow> jsval \<Rightarrow> audioGroup" where
  "new_group u t d = \<lparr> slot_url = u, sound = None, volume = Num 1, gain_value = Num 1,
     audio = \<lparr> src = Some u, paused = True, currentTime = Num t, duration = d,
               seek_position = 0, loaded = True, player_volume = Undefined \<rparr>,
     pauseAfterPlay = False \<rparr>"

definition alloc :: "audioGroup \<Rightarrow> speaker \<Rightarrow> speaker" where
  "alloc g st = st\<lparr>slots := (slots st)(nslots st := g), nslots := Suc (nslots st)\<rparr>"

text \<open>
  \<open>assemblePlay\<close> of \<open>_playSound\<close>, up to \<open>var me = this.active\<close> (the same text in both
  variants but for \<open>_setVolume\<close>, the parameter \<open>setvol\<close>): the roles \<open>active\<close> and
  \<open>preparing\<close> are swapped, the new active slot loses its Sound and gets its volume, and a
  Sound still bound to the slot that became \<open>preparing\<close> is detached, its player pointed
  at silence, and \<open>finish\<close> triggered on it.
\<close>

definition swap_in ::
  "(nat \<Rightarrow> nat option \<Rightarrow> speaker \<Rightarrow> outcome) \<Rightarrow> nat \<Rightarrow> speaker \<Rightarrow> outcome" where
  "swap_in setvol s st =
     (let st1 = st\<lparr>active := preparing st, preparing := active st\<rparr>
      in case active st1 of
           None \<Rightarrow> TypeError st1
         | Some a \<Rightarrow>
             then_do (setvol a (Some s) (upd_group a (\<lambda>g. g\<lparr>sound := None\<rparr>) st1))
               (\<lambda>st2. case preparing st2 of
                         None \<Rightarrow> TypeError st2
                       | Some p \<Rightarrow>
                           (case sound (slots st2 p) of
                              None \<Rightarrow> Done st2
                            | Some fs \<Rightarrow>
                                Done (trigger fs Finish
                                       (upd_group p (\<lambda>g. g\<lparr>sound := None\<rparr>)
                                         (upd_audio p (\<lambda>x. x\<lparr>src := Some SILENCE\<rparr>) st2))))))"

text \<open>
  \<open>assemblePlay\<close> of the AudioContext variant: after the swap,
  \<open>this.active.audio.play()\<close> unpauses the player and leaves its promise outstanding.
\<close>

definition assemblePlay :: "nat \<Rightarrow> speaker \<Rightarrow> outcome" where
  "assemblePlay s st =
     then_do (swap_in setVolume' s st)
       (\<lambda>st3. case active st3 of
                 None \<Rightarrow> TypeError st3
               | Some me \<Rightarrow>
                   Done (add_promise (StartPending me s)
                          (upd_audio me (\<lambda>x. x\<lparr>paused := False\<rparr>) st3)))"

text \<open>
  The statements that follow a successful \<open>play()\<close> in \<open>assemblePlay\<close>, for slot \<open>me\<close>
  and Sound \<open>s\<close>: the \<open>.then\<close> handler of the AudioContext variant (lines 1639-1677) and
  the rest of the \<open>try\<close> block of the Howl variant (lines 687-723). The two differ only in
  how they read whether the player is paused, \<open>me.audio.paused\<close> or
  \<open>!me.audio.playing()\<close>, which is the parameter \<open>is_paused\<close>.
\<close>

definition play_succeeded :: "(AudioPlayer \<Rightarrow> bool) \<Rightarrow> nat \<Rightarrow> nat \<Rightarrow> speaker \<Rightarrow> speaker" where
  "play_succeeded is_paused me s st =
     (if s \<notin> set (outstandingSounds st)
      then (if src (audio (slots st me)) = Some (url (sounds st s))
            then upd_audio me (\<lambda>x. x\<lparr>src := Some SILENCE\<rparr>)
                   (upd_audio me (\<lambda>x. x\<lparr>paused := True\<rparr>) st)
            else st)
      else (let st1 = upd_group me (\<lambda>g. g\<lparr>sound := Some s\<rparr>) st;
                sd = sounds st1 s;
                st2 = (if truthy (fadeOutSeconds sd) \<and> strict_eq (fadeOutEnd sd) (Num 0)
                       then upd_sound s
                              (\<lambda>x. x\<lparr>fadeOutStart :=
                                        jsub (duration (audio (slots st1 me))) (fadeOutSeconds x),
                                      fadeOutEnd := duration (audio (slots st1 me))\<rparr>) st1
                       else st1);
                st3 = (if truthy (startPosition sd)
                       then upd_audio me
                              (\<lambda>x. x\<lparr>currentTime := jdiv (startPosition sd) (Num 1000)\<rparr>) st2
                       else st2);
                was_paused = is_paused (audio (slots st3 me));
                st4 = trigger s Play st3
            in if pauseAfterPlay (slots st4 me)
               then upd_audio me (\<lambda>x. x\<lparr>paused := True\<rparr>) st4
               else if was_paused then trigger s Pause st4 else st4))"

text \<open>The \<open>.then\<close> handler of the AudioContext variant.\<close>

definition startResolved :: "nat \<Rightarrow> nat \<Rightarrow> speaker \<Rightarrow> speaker" where
  "startResolved me s st = play_succeeded paused me s st"

text \<open>The \<open>.catch\<close> handler of the same call.\<close>

definition startRejected :: "nat \<Rightarrow> speaker \<Rightarrow> speaker" where
  "startRejected s st = trigger s Finish st"

text \<open>\<open>_playSound(sound)\<close>.\<close>

definition playSound' :: "nat \<Rightarrow> speaker \<Rightarrow> outcome" where
  "playSound' s st =
     (case active st of
        None \<Rightarrow> Done st
      | Some a \<Rightarrow>
          if sound (slots st a) = Some s
          then (if paused (audio (slots st a))
                then (let st1 = add_promise (ResumePending s)
                                  (upd_audio a (\<lambda>x. x\<lparr>paused := False\<rparr>) st)
                      in case fading st1 of
                           None \<Rightarrow> TypeError st1
                         | Some f \<Rightarrow>
                             (case sound (slots st1 f) of
                                None \<Rightarrow> Done st1
                              | Some fs \<Rightarrow>
                                  Done (add_promise FadingResumePending
                                         (upd_audio f (\<lambda>x. x\<lparr>paused := False\<rparr>) st1))))
                else Done st)
          else (case preparing st of
                  None \<Rightarrow> TypeError st
                | Some p \<Rightarrow>
                    if src (audio (slots st p)) \<noteq> Some (url (sounds st s))
                    then prepare' (url (sounds st s)) (startPosition (sounds st s)) (Some s) st
                    else assemblePlay s st))"

text \<open>The handlers of the two \<open>play()\<close> calls of the resume branch.\<close>

definition resumeResolved :: "nat \<Rightarrow> speaker \<Rightarrow> speaker" where
  "resumeResolved s st = trigger s Play st"

definition resumeRejected :: "nat \<Rightarrow> speaker \<Rightarrow> outcome" where
  "resumeRejected s st =
     (case active st of
        None \<Rightarrow> TypeError st
      | Some a \<Rightarrow> Done (trigger s Finish (upd_group a (\<lambda>g. g\<lparr>sound := None\<rparr>) st)))"

definition fadingResumeRejected :: "speaker \<Rightarrow> outcome" where
  "fadingResumeRejected st =
     (case fading st of
        None \<Rightarrow> TypeError st
      | Some f \<Rightarrow> Done (upd_audio f (\<lambda>x. x\<lparr>src := Some SILENCE\<rparr>)
                         (upd_group f (\<lambda>g. g\<lparr>sound := None\<rparr>) st)))"

text \<open>\<open>_destroySound(sound)\<close>, AudioContext variant (lines 1773-1792).\<close>

definition destroySound' :: "nat \<Rightarrow> speaker \<Rightarrow> speaker" where
  "destroySound' s st =
     (let st1 = off s st;
          st2 = (case active st1 of
                   None \<Rightarrow> st1
                 | Some a \<Rightarrow>
                     if sound (slots st1 a) = Some s
                     then upd_audio a (\<lambda>x. x\<lparr>paused := True\<rparr>) st1
                     else st1)
      in st2\<lparr>outstandingSounds := removeAll s (outstandingSounds st2)\<rparr>)"

text \<open>
  \<open>flush()\<close>: \<open>for (let id in this.outstandingSounds) this.outstandingSounds[id].destroy()\<close>.
  Each \<open>destroy\<close> deletes only its own key, so the loop visits the keys present at its
  start.
\<close>

definition flush :: "speaker \<Rightarrow> speaker" where
  "flush st = fold destroySound' (outstandingSounds st) st"

text \<open>\<open>_pauseSound(sound)\<close>, AudioContext variant (lines 1805-1821).\<close>

definition pauseSound' :: "nat \<Rightarrow> speaker \<Rightarrow> speaker" where
  "pauseSound' s st =
     (let st1 = (case active st of
                   None \<Rightarrow> st
                 | Some a \<Rightarrow>
                     if Some (url (sounds st s)) = src (audio (slots st a))
                     then (if sound (slots st a) = Some s
                           then upd_audio a (\<lambda>x. x\<lparr>paused := True\<rparr>) st
                           else upd_group a (\<lambda>g. g\<lparr>pauseAfterPlay := True\<rparr>) st)
                     else st)
      in case fading st1 of
           None \<Rightarrow> st1
         | Some f \<Rightarrow> upd_audio f (\<lambda>x. x\<lparr>paused := True\<rparr>) st1)"

text \<open>
  \<open>_position(sound)\<close> and \<open>_duration(sound)\<close>; a TypeError is the left injection.
  \<open>Math.floor\<close> of a time that is not a number is \<open>NaN\<close>.
\<close>

datatype error = NullDereference

definition position' :: "nat \<Rightarrow> speaker \<Rightarrow> error + jsval" where
  "position' s st =
     (case active st of
        None \<Rightarrow> Inr (Num 0)
      | Some a \<Rightarrow>
          if sound (slots st a) = Some s
          then (case currentTime (audio (slots st a)) of
                  Num t \<Rightarrow> Inr (Num (of_int \<lfloor>t * 1000\<rfloor>))
                | _ \<Rightarrow> Inr NaN)
          else Inr (Num 0))"

definition duration' :: "nat \<Rightarrow> speaker \<Rightarrow> error + int" where
  "duration' s st =
     (case active st of
        None \<Rightarrow> Inl NullDereference
      | Some a \<Rightarrow>
          if sound (slots st a) = Some s
          then (case duration (audio (slots st a)) of
                  Num d \<Rightarrow> Inr \<lfloor>d * 1000\<rfloor>
                | _ \<Rightarrow> Inr 0)
          else Inr 0)"

text \<open>\<open>setVolume(value)\<close> (\<open>None\<close> for an undefined argument) and \<open>getVolume()\<close>.\<close>

definition setVolume :: "real option \<Rightarrow> speaker \<Rightarrow> outcome" where
  "setVolume newvol st =
     (case newvol of
        None \<Rightarrow> Done st
      | Some v \<Rightarrow>
          (let st1 = st\<lparr>vol := v\<rparr>
           in case active st1 of
                None \<Rightarrow> Done st1
              | Some a \<Rightarrow>
                  (case sound (slots st1 a) of
                     None \<Rightarrow> Done st1
                   | Some s \<Rightarrow> setVolume' a None st1)))"

definition getVolume :: "speaker \<Rightarrow> real" where
  "getVolume st = vol st"

section \<open>Event handlers of a player (\<open>attachEventHandlers\<close>, AudioContext variant)\<close>

text \<open>The \<open>closed\<close> handler of player \<open>x\<close>.\<close>

definition on_closed :: "nat \<Rightarrow> speaker \<Rightarrow> outcome" where
  "on_closed x st =
     (if src (audio (slots st x)) = Some SILENCE then Done st
      else case fading st of
             None \<Rightarrow> TypeError st
           | Some f \<Rightarrow>
               if x = f
               then Done (upd_group f (\<lambda>g. g\<lparr>sound := None\<rparr>)
                           (upd_audio x (\<lambda>a. a\<lparr>src := Some SILENCE\<rparr>) st))
               else (case active st of
                       None \<Rightarrow> TypeError st
                     | Some a \<Rightarrow>
                         if x \<noteq> a then Done st
                         else (case sound (slots st a) of
                                 None \<Rightarrow> Done st
                               | Some s \<Rightarrow>
                                   if Some (url (sounds st s)) \<noteq> src (audio (slots st x)) then Done st
                                   else Done (trigger s Finish
                                               (upd_group a (\<lambda>g. g\<lparr>sound := None\<rparr>) st)))))"

text \<open>The \<open>pause\<close> handler of player \<open>x\<close>.\<close>

definition on_pause :: "nat \<Rightarrow> speaker \<Rightarrow> outcome" where
  "on_pause x st =
     (if src (audio (slots st x)) = Some SILENCE then Done st
      else case active st of
             None \<Rightarrow> TypeError st
           | Some a \<Rightarrow>
               if x \<noteq> a then Done st
               else if strict_eq (currentTime (audio (slots st x)))
                                 (duration (audio (slots st x))) then Done st
               else (case sound (slots st a) of
                       None \<Rightarrow> Done st
                     | Some s \<Rightarrow>
                         if Some (url (sounds st s)) \<noteq> src (audio (slots st x)) then Done st
                         else Done (trigger s Pause st)))"

text \<open>The \<open>ontimeupdate\<close> handler of player \<open>x\<close> (lines 1142-1221).\<close>

definition reached :: "jsval \<Rightarrow> jsval \<Rightarrow> bool" where
  "reached endPos t = (truthy endPos \<and> jle (jdiv endPos (Num 1000)) t)"

text \<open>Its branch for the fading player bound to Sound \<open>fs\<close>.\<close>

definition timeupdate_fading :: "nat \<Rightarrow> nat \<Rightarrow> speaker \<Rightarrow> outcome" where
  "timeupdate_fading f fs st =
     (if reached (endPosition (sounds st fs)) (currentTime (audio (slots st f)))
      then Done (upd_audio f (\<lambda>a. a\<lparr>src := Some SILENCE\<rparr>)
                  (upd_group f (\<lambda>g. g\<lparr>sound := None\<rparr>) st))
      else setVolume' f None st)"

text \<open>The rotation at the start of the fade-out: active becomes fading and fading becomes
  active, the new active slot loses its Sound, and \<open>finish\<close> is triggered on the Sound of
  the new fading slot.\<close>

definition rotate_to_fading :: "speaker \<Rightarrow> outcome" where
  "rotate_to_fading st1 =
     (let st2 = st1\<lparr>fading := active st1, active := fading st1\<rparr>
      in case active st2 of
           None \<Rightarrow> TypeError st2
         | Some a2 \<Rightarrow>
             (let st3 = upd_group a2 (\<lambda>g. g\<lparr>sound := None\<rparr>) st2
              in case fading st3 of
                   None \<Rightarrow> TypeError st3
                 | Some f3 \<Rightarrow>
                     (case sound (slots st3 f3) of
                        None \<Rightarrow> TypeError st3
                      | Some fs \<Rightarrow> Done (trigger fs Finish st3))))"

text \<open>Its three-way branch for the active player \<open>a\<close> bound to Sound \<open>s\<close>.\<close>

definition timeupdate_active :: "nat \<Rightarrow> nat \<Rightarrow> speaker \<Rightarrow> outcome" where
  "timeupdate_active a s st =
     (if reached (endPosition (sounds st s)) (currentTime (audio (slots st a)))
      then Done (trigger s Finish
                  (upd_audio a (\<lambda>a. a\<lparr>src := Some SILENCE\<rparr>)
                    (upd_group a (\<lambda>g. g\<lparr>sound := None\<rparr>) st)))
      else if truthy (fadeOutEnd (sounds st s))
              \<and> jle (fadeOutStart (sounds st s)) (currentTime (audio (slots st a)))
      then then_do (setVolume' a None st) rotate_to_fading
      else then_do (setVolume' a None st) (\<lambda>st1. Done (trigger s Elapse st1)))"

text \<open>Its last statement: \<open>if (this.prepareWhenReady) this.prepare(this.prepareWhenReady)\<close>.\<close>

definition retry_prepare :: "speaker \<Rightarrow> outcome" where
  "retry_prepare st =
     (case prepareWhenReady st of
        None \<Rightarrow> Done st
      | Some u \<Rightarrow> if u = [] then Done st else prepare u st)"

definition ontimeupdate :: "nat \<Rightarrow> speaker \<Rightarrow> outcome" where
  "ontimeupdate x st =
     (if src (audio (slots st x)) = Some SILENCE then Done st
      else case fading st of
             None \<Rightarrow> TypeError st
           | Some f \<Rightarrow>
               (case (if x = f then sound (slots st f) else None) of
                  Some fs \<Rightarrow> timeupdate_fading f fs st
                | None \<Rightarrow>
                    (case active st of
                       None \<Rightarrow> TypeError st
                     | Some a \<Rightarrow>
                         if x \<noteq> a then Done st
                         else (case sound (slots st a) of
                                 None \<Rightarrow> Done st
                               | Some s \<Rightarrow>
                                   if Some (url (sounds st s)) \<noteq> src (audio (slots st x)) then Done st
                                   else then_do (timeupdate_active a s st) retry_prepare))))"

text \<open>The interval of \<open>pollTime\<close>: the player takes the context's time \<open>t\<close>, then the
  handler runs.\<close>

definition pollTime :: "nat \<Rightarrow> real \<Rightarrow> speaker \<Rightarrow> outcome" where
  "pollTime x t st = ontimeupdate x (upd_audio x (\<lambda>a. a\<lparr>currentTime := Num t\<rparr>) st)"

section \<open>Initialisation and completion of asynchronous calls\<close>

text \<open>\<open>initializeAudio()\<close>: the third player is requested for the pending URL, if any.\<close>

definition initializeAudio :: "speaker \<Rightarrow> speaker" where
  "initializeAudio st =
     (if active st = None
      then add_promise
             (InitPending (case prepareWhenReady st of
                             None \<Rightarrow> SILENCE
                           | Some u \<Rightarrow> if u = [] then SILENCE else u)) st
      else st)"

text \<open>The \<open>.then\<close> of its \<open>Promise.all\<close>, with the time and duration of each player.\<close>

definition initResolved ::
  "string \<Rightarrow> real \<Rightarrow> jsval \<Rightarrow> real \<Rightarrow> jsval \<Rightarrow> real \<Rightarrow> jsval \<Rightarrow> speaker \<Rightarrow> speaker" where
  "initResolved u t1 d1 t2 d2 t3 d3 st =
     (let a = nslots st;
          st1 = alloc (new_group u t3 d3)
                  (alloc (new_group SILENCE t2 d2) (alloc (new_group SILENCE t1 d1) st))
      in st1\<lparr>active := Some a, fading := Some (Suc a), preparing := Some (Suc (Suc a)),
              prepareWhenReady := None\<rparr>)"

text \<open>The \<open>.then\<close> of \<open>_prepare\<close>'s player, followed by the chained \<open>assemblePlay\<close>.\<close>

definition prepareResolved :: "string \<Rightarrow> nat option \<Rightarrow> real \<Rightarrow> jsval \<Rightarrow> speaker \<Rightarrow> outcome" where
  "prepareResolved u cont t d st =
     (let st1 = (alloc (new_group u t d) st)\<lparr>preparing := Some (nslots st)\<rparr>
      in case cont of
           None \<Rightarrow> Done st1
         | Some s \<Rightarrow> assemblePlay s st1)"

section \<open>The Howl variant (lines 1-842), where it differs\<close>

text \<open>
  The Howl variant has the same \<open>initializeAudio\<close>, \<open>create\<close>, \<open>_prepare\<close>,
  \<open>_position\<close>, \<open>_duration\<close> and \<open>flush\<close>, and the same \<open>pause\<close> handler; its \<open>stop\<close>
  handler is the \<open>closed\<close> handler above. What follows is what it does differently.
\<close>

text \<open>
  The slot its \<open>_createAudioPlayer(url)\<close> returns (lines 292-335):
  \<open>{ url, sound: null, volume: DEFAULT_VOLUME, audio }\<close>, where \<open>audio\<close> is a new
  \<open>Howl\<close> that starts loading \<open>url\<close>. The URL is kept on the slot; on the \<open>Howl\<close>,
  \<open>src\<close> and \<open>currentTime\<close> are \<open>undefined\<close>.

  Its property \<open>duration\<close> is a method. The function object that reading it yields is
  represented by \<open>NaN\<close>: the source subtracts a number from it, compares it with numbers
  and passes it to \<open>isNaN\<close>, and each of these gives what it gives for \<open>NaN\<close>.
  \<open>assemblePlay\<close> also stores it in \<open>sound.fadeOutEnd\<close>, together with
  \<open>fadeOutStart = duration - fadeOutSeconds\<close>, which is \<open>NaN\<close>; from then on the truth
  of \<open>fadeOutEnd\<close>, the one reading in which a function and \<open>NaN\<close> differ, is only
  tested in conjunction with \<open>seek() >= fadeOutStart\<close>, which is false.
\<close>

definition new_howl_group :: "string \<Rightarrow> audioGroup" where
  "new_howl_group u = \<lparr> slot_url = u, sound = None, volume = Num 1, gain_value = Undefined,
     audio = \<lparr> src = None, paused = True, currentTime = Undefined, duration = NaN,
               seek_position = 0, loaded = False, player_volume = Num 1 \<rparr>,
     pauseAfterPlay = False \<rparr>"

text \<open>\<open>_setVolume(audioGroup, sound)\<close> (lines 374-439): the volume goes to the Howl.\<close>

definition setVolume'_howl :: "nat \<Rightarrow> nat option \<Rightarrow> speaker \<Rightarrow> outcome" where
  "setVolume'_howl g sopt st =
     (case (case sopt of Some s \<Rightarrow> Some s | None \<Rightarrow> sound (slots st g)) of
        None \<Rightarrow> TypeError st
      | Some s \<Rightarrow>
          (let cv = volume_at (vol st) (sounds st s) (currentTime (audio (slots st g)))
           in Done (upd_audio g (\<lambda>x. x\<lparr>player_volume := cv\<rparr>) st)))"

text \<open>\<open>setVolume(value)\<close> (lines 820-832).\<close>

definition setVolume_howl :: "real option \<Rightarrow> speaker \<Rightarrow> outcome" where
  "setVolume_howl newvol st =
     (case newvol of
        None \<Rightarrow> Done st
      | Some v \<Rightarrow>
          (let st1 = st\<lparr>vol := v\<rparr>
           in case active st1 of
                None \<Rightarrow> Done st1
              | Some a \<Rightarrow>
                  (case sound (slots st1 a) of
                     None \<Rightarrow> Done st1
                   | Some s \<Rightarrow> setVolume'_howl a None st1)))"

text \<open>\<open>prepare(url)\<close> (lines 510-537).\<close>

definition prepare_howl :: "string \<Rightarrow> speaker \<Rightarrow> outcome" where
  "prepare_howl u st =
     (case active st of
        None \<Rightarrow> Done (st\<lparr>prepareWhenReady := Some u\<rparr>)
      | Some a \<Rightarrow>
          if loaded (audio (slots st a)) \<and> 20 < seek_position (audio (slots st a))
          then prepare' u (Num 0) None st
          else if slot_url (slots st a) = SILENCE then prepare' u (Num 0) None st
          else Done (st\<lparr>prepareWhenReady := Some u\<rparr>))"

text \<open>The \<open>end\<close> handler (lines 261-269).\<close>

definition on_end_howl :: "speaker \<Rightarrow> outcome" where
  "on_end_howl st =
     (case active st of
        None \<Rightarrow> TypeError st
      | Some a \<Rightarrow>
          (let st1 = upd_group a (\<lambda>g. g\<lparr>slot_url := SILENCE\<rparr>)
                       (upd_group a (\<lambda>g. g\<lparr>sound := None\<rparr>) st)
           in case sound (slots st a) of
                None \<Rightarrow> TypeError st1
              | Some s \<Rightarrow> Done (trigger s Finish st1)))"

text \<open>The \<open>fade\<close> handler of player \<open>x\<close> (lines 271-289).\<close>

definition on_fade_howl :: "nat \<Rightarrow> speaker \<Rightarrow> outcome" where
  "on_fade_howl x st =
     (case active st of
        None \<Rightarrow> TypeError st
      | Some a \<Rightarrow>
          (case sound (slots st a) of
             None \<Rightarrow> TypeError st
           | Some s \<Rightarrow>
               if truthy (fadeOutEnd (sounds st s))
                  \<and> jle (fadeOutStart (sounds st s)) (Num (seek_position (audio (slots st x))))
               then then_do (setVolume'_howl a None st) rotate_to_fading
               else Done st))"

text \<open>
  The position update \<open>ontimeupdate\<close> of \<open>_createAudioPlayer\<close> (lines 297-314), run on
  every animation frame while the player plays.
\<close>

definition ontimeupdate_howl :: "speaker \<Rightarrow> outcome" where
  "ontimeupdate_howl st =
     (case active st of
        None \<Rightarrow> TypeError st
      | Some a \<Rightarrow>
          (case sound (slots st a) of
             None \<Rightarrow> Done st
           | Some s \<Rightarrow>
               (let st1 = trigger s Elapse st
                in case prepareWhenReady st1 of
                     None \<Rightarrow> Done st1
                   | Some u \<Rightarrow> if u = [] then Done st1 else prepare_howl u st1)))"

text \<open>
  \<open>assemblePlay\<close> (lines 661-728): \<open>play()\<close> is synchronous, inside a \<open>try\<close>;
  \<open>throws\<close> tells whether it throws, in which case \<open>finish\<close> is triggered.
\<close>

definition assemblePlay_howl :: "bool \<Rightarrow> nat \<Rightarrow> speaker \<Rightarrow> outcome" where
  "assemblePlay_howl throws s st =
     then_do (swap_in setVolume'_howl s st)
       (\<lambda>st3. case active st3 of
                 None \<Rightarrow> TypeError st3
               | Some me \<Rightarrow>
                   if throws then Done (trigger s Finish st3)
                   else Done (play_succeeded (\<lambda>x. \<not> playing x) me s
                               (upd_audio me (\<lambda>x. x\<lparr>paused := False\<rparr>) st3)))"

text \<open>
  \<open>_playSound(sound)\<close> (lines 618-742); \<open>throws\<close> and \<open>throws_fading\<close> tell whether the
  \<open>play()\<close> of the active and of the fading player throw.
\<close>

definition playSound_howl :: "bool \<Rightarrow> bool \<Rightarrow> nat \<Rightarrow> speaker \<Rightarrow> outcome" where
  "playSound_howl throws throws_fading s st =
     (case active st of
        None \<Rightarrow> Done st
      | Some a \<Rightarrow>
          if sound (slots st a) = Some s
          then (if \<not> playing (audio (slots st a))
                then (let st1 = (if throws
                                 then trigger s Finish (upd_group a (\<lambda>g. g\<lparr>sound := None\<rparr>) st)
                                 else trigger s Play
                                        (upd_audio a (\<lambda>x. x\<lparr>paused := False\<rparr>) st))
                      in case fading st1 of
                           None \<Rightarrow> TypeError st1
                         | Some f \<Rightarrow>
                             (case sound (slots st1 f) of
                                None \<Rightarrow> Done st1
                              | Some fs \<Rightarrow>
                                  if throws_fading
                                  then Done (upd_audio f (\<lambda>x. x\<lparr>src := Some SILENCE\<rparr>)
                                              (upd_group f (\<lambda>g. g\<lparr>sound := None\<rparr>) st1))
                                  else Done (upd_audio f (\<lambda>x. x\<lparr>paused := False\<rparr>) st1)))
                else Done st)
          else (case preparing st of
                  None \<Rightarrow> TypeError st
                | Some p \<Rightarrow>
                    if src (audio (slots st p)) \<noteq> Some (url (sounds st s))
                    then prepare' (url (sounds st s)) (startPosition (sounds st s)) (Some s) st
                    else assemblePlay_howl throws s st))"

text \<open>\<open>_destroySound(sound)\<close>, lines 744-765: the pause stands after the
  \<open>if\<close>/\<open>else\<close>, guarded only by the existence of the active slot.\<close>

definition destroySound_howl :: "nat \<Rightarrow> speaker \<Rightarrow> speaker" where
  "destroySound_howl s st =
     (let st1 = off s st;
          st2 = (case active st1 of
                   None \<Rightarrow> st1
                 | Some a \<Rightarrow> upd_audio a (\<lambda>x. x\<lparr>paused := True\<rparr>) st1)
      in st2\<lparr>outstandingSounds := removeAll s (outstandingSounds st2)\<rparr>)"

text \<open>\<open>flush()\<close> (lines 767-772).\<close>

definition flush_howl :: "speaker \<Rightarrow> speaker" where
  "flush_howl st = fold destroySound_howl (outstandingSounds st) st"

text \<open>\<open>_pauseSound(sound)\<close>, lines 774-789: it compares with the slot's
  \<open>url\<close> field.\<close>

definition pauseSound_howl :: "nat \<Rightarrow> speaker \<Rightarrow> speaker" where
  "pauseSound_howl s st =
     (let st1 = (case active st of
                   None \<Rightarrow> st
                 | Some a \<Rightarrow>
                     if url (sounds st s) = slot_url (slots st a)
                     then (if sound (slots st a) = Some s
                           then upd_audio a (\<lambda>x. x\<lparr>paused := True\<rparr>) st
                           else upd_group a (\<lambda>g. g\<lparr>pauseAfterPlay := True\<rparr>) st)
                     else st)
      in case fading st1 of
           None \<Rightarrow> st1
         | Some f \<Rightarrow> upd_audio f (\<lambda>x. x\<lparr>paused := True\<rparr>) st1)"

text \<open>The \<open>.then\<close> of the \<open>Promise.all\<close> of \<open>initializeAudio\<close> (lines 354-362).\<close>

definition initResolved_howl :: "string \<Rightarrow> speaker \<Rightarrow> speaker" where
  "initResolved_howl u st =
     (let a = nslots st;
          st1 = alloc (new_howl_group u)
                  (alloc (new_howl_group SILENCE) (alloc (new_howl_group SILENCE) st))
      in st1\<lparr>active := Some a, fading := Some (Suc a), preparing := Some (Suc (Suc a)),
              prepareWhenReady := None\<rparr>)"

text \<open>
  The \<open>.then\<close> of \<open>_prepare\<close> (lines 603-605): \<open>this.preparing = preparing\<close>. It
  resolves the promise \<open>_prepare\<close> returned, on which \<open>_playSound\<close> chained
  \<open>assemblePlay\<close>: that runs in a later turn of its own, after whatever was queued before
  it (the assignment of another \<open>_prepare\<close> called in the same turn, for one).
\<close>

definition prepareResolved_howl :: "string \<Rightarrow> nat option \<Rightarrow> speaker \<Rightarrow> speaker" where
  "prepareResolved_howl u cont st =
     (let st1 = (alloc (new_howl_group u) st)\<lparr>preparing := Some (nslots st)\<rparr>
      in case cont of
           None \<Rightarrow> st1
         | Some s \<Rightarrow> add_promise (AssemblePending s) st1)"
section \<open>The speaker as a transition system\<close>

text \<open>
  Everything that can happen to a Speaker of either variant: a call of its interface, the
  completion of an outstanding asynchronous call, or an event of a player (for a Howl also
  the end of its loading, and an animation frame with its position). Completions only
  happen for calls that are outstanding, events only for players that exist. The handlers
  subscribed to a Sound observe its events and do not call back into the speaker.
\<close>

datatype action =
    InitializeAudio
  | InitResolved string real jsval real jsval real jsval
  | Create string "options option"
  | PrepareUrl string
  | PrepareResolved string "nat option" real jsval
  | PrepareFailed string "nat option"
  | PlaySound nat
  | StartResolved nat nat
  | StartRejected nat nat
  | ResumeResolved nat
  | ResumeRejected nat
  | FadingResumeResolved
  | FadingResumeRejected
  | PauseSound nat
  | DestroySound nat
  | Flush
  | SetVolume "real option"
  | TimeUpdate nat real
  | PauseEvent nat
  | ClosedEvent nat
  | InitResolvedHowl string
  | PrepareUrlHowl string
  | PrepareResolvedHowl string "nat option"
  | AssembleHowl bool nat
  | PlaySoundHowl bool bool nat
  | PauseSoundHowl nat
  | DestroySoundHowl nat
  | FlushHowl
  | SetVolumeHowl "real option"
  | LoadedHowl nat
  | FrameHowl nat real
  | EndEventHowl nat
  | FadeEventHowl nat

definition settle :: "pending \<Rightarrow> (speaker \<Rightarrow> outcome) \<Rightarrow> speaker \<Rightarrow> speaker" where
  "settle p k st =
     (if p \<in> set (promises st)
      then state_of (k (st\<lparr>promises := remove1 p (promises st)\<rparr>))
      else st)"

definition player_event :: "nat \<Rightarrow> (speaker \<Rightarrow> outcome) \<Rightarrow> speaker \<Rightarrow> speaker" where
  "player_event x k st = (if x < nslots st then state_of (k st) else st)"

fun step :: "action \<Rightarrow> speaker \<Rightarrow> speaker" where
  "step InitializeAudio st = initializeAudio st"
| "step (InitResolved u t1 d1 t2 d2 t3 d3) st =
     settle (InitPending u) (\<lambda>s. Done (initResolved u t1 d1 t2 d2 t3 d3 s)) st"
| "step (Create u opts) st = state_of (snd (create u opts st))"
| "step (PrepareUrl u) st = state_of (prepare u st)"
| "step (PrepareResolved u cont t d) st =
     settle (PreparePending u cont) (prepareResolved u cont t d) st"
| "step (PrepareFailed u cont) st = settle (PreparePending u cont) Done st"
| "step (PlaySound s) st = state_of (playSound' s st)"
| "step (StartResolved me s) st =
     settle (StartPending me s) (\<lambda>x. Done (startResolved me s x)) st"
| "step (StartRejected me s) st =
     settle (StartPending me s) (\<lambda>x. Done (startRejected s x)) st"
| "step (ResumeResolved s) st = settle (ResumePending s) (\<lambda>x. Done (resumeResolved s x)) st"
| "step (ResumeRejected s) st = settle (ResumePending s) (resumeRejected s) st"
| "step FadingResumeResolved st = settle FadingResumePending Done st"
| "step FadingResumeRejected st = settle FadingResumePending fadingResumeRejected st"
| "step (PauseSound s) st = pauseSound' s st"
| "step (DestroySound s) st = destroySound' s st"
| "step Flush st = flush st"
| "step (SetVolume v) st = state_of (setVolume v st)"
| "step (TimeUpdate x t) st = player_event x (pollTime x t) st"
| "step (PauseEvent x) st = player_event x (on_pause x) st"
| "step (ClosedEvent x) st = player_event x (on_closed x) st"
| "step (InitResolvedHowl u) st =
     settle (InitPending u) (\<lambda>s. Done (initResolved_howl u s)) st"
| "step (PrepareUrlHowl u) st = state_of (prepare_howl u st)"
| "step (PrepareResolvedHowl u cont) st =
     settle (PreparePending u cont) (\<lambda>s. Done (prepareResolved_howl u cont s)) st"
| "step (AssembleHowl throws s) st =
     settle (AssemblePending s) (assemblePlay_howl throws s) st"
| "step (PlaySoundHowl throws throws_fading s) st =
     state_of (playSound_howl throws throws_fading s st)"
| "step (PauseSoundHowl s) st = pauseSound_howl s st"
| "step (DestroySoundHowl s) st = destroySound_howl s st"
| "step FlushHowl st = flush_howl st"
| "step (SetVolumeHowl v) st = state_of (setVolume_howl v st)"
| "step (LoadedHowl x) st =
     player_event x (\<lambda>s. Done (upd_audio x (\<lambda>a. a\<lparr>loaded := True\<rparr>) s)) st"
| "step (FrameHowl x t) st =
     player_event x
       (\<lambda>s. ontimeupdate_howl (upd_audio x (\<lambda>a. a\<lparr>seek_position := t\<rparr>) s)) st"
| "step (EndEventHowl x) st = player_event x on_end_howl st"
| "step (FadeEventHowl x) st = player_event x (on_fade_howl x) st"

definition run :: "action list \<Rightarrow> speaker \<Rightarrow> speaker" where
  "run acts st = fold step acts st"

section \<open>The elementary state changes\<close>

text \<open>
  Every operation above is a composition of the elementary changes listed here: a write to
  a player, to the Sound, volume, URL or deferred-pause flag of a slot (the flag is only ever
  set), a write to a Sound that keeps its subscribers, \<open>off\<close>, \<open>trigger\<close>, a change of the
  outstanding calls, a new slot object, an assignment to a field of the speaker, the
  registration of a Sound under the next id, and the removal of a key from the registry.
  \<open>evolve st st'\<close> holds when \<open>st'\<close> is reached from \<open>st\<close> by such changes.
\<close>

inductive evolve :: "speaker \<Rightarrow> speaker \<Rightarrow> bool" where
  ev_refl: "evolve st st"
| ev_audio: "evolve st st1 \<Longrightarrow> evolve st (upd_audio a f st1)"
| ev_bind: "evolve st st1 \<Longrightarrow> evolve st (upd_group a (\<lambda>g. g\<lparr>sound := so\<rparr>) st1)"
| ev_volume: "evolve st st1 \<Longrightarrow>
     evolve st (upd_group a (\<lambda>x. x\<lparr>gain_value := cv, volume := cv\<rparr>) st1)"
| ev_slot_url: "evolve st st1 \<Longrightarrow> evolve st (upd_group a (\<lambda>g. g\<lparr>slot_url := w\<rparr>) st1)"
| ev_flag: "evolve st st1 \<Longrightarrow>
     evolve st (upd_group a (\<lambda>g. g\<lparr>pauseAfterPlay := True\<rparr>) st1)"
| ev_sound: "(\<And>x. callbacks (f x) = callbacks x) \<Longrightarrow> evolve st st1 \<Longrightarrow>
     evolve st (upd_sound s f st1)"
| ev_off: "evolve st st1 \<Longrightarrow> evolve st (off s st1)"
| ev_trigger: "evolve st st1 \<Longrightarrow> evolve st (trigger s e st1)"
| ev_promise: "evolve st st1 \<Longrightarrow> evolve st (add_promise p st1)"
| ev_settled: "evolve st st1 \<Longrightarrow> evolve st (st1\<lparr>promises := ps\<rparr>)"
| ev_alloc: "evolve st st1 \<Longrightarrow> evolve st (alloc g st1)"
| ev_active: "evolve st st1 \<Longrightarrow> evolve st (st1\<lparr>active := r\<rparr>)"
| ev_fading: "evolve st st1 \<Longrightarrow> evolve st (st1\<lparr>fading := r\<rparr>)"
| ev_preparing: "evolve st st1 \<Longrightarrow> evolve st (st1\<lparr>preparing := r\<rparr>)"
| ev_pending_url: "evolve st st1 \<Longrightarrow> evolve st (st1\<lparr>prepareWhenReady := w\<rparr>)"
| ev_vol: "evolve st st1 \<Longrightarrow> evolve st (st1\<lparr>vol := v\<rparr>)"
| ev_register: "evolve st st1 \<Longrightarrow>
     evolve st (st1\<lparr>idCounter := Suc (idCounter st1),
                    sounds := (sounds st1)(Suc (idCounter st1) := sd),
                    outstandingSounds :=
                      (if Suc (idCounter st1) \<in> set (outstandingSounds st1)
                       then outstandingSounds st1
                       else outstandingSounds st1 @ [Suc (idCounter st1)])\<rparr>)"
| ev_unregister: "evolve st st1 \<Longrightarrow>
     evolve st (st1\<lparr>outstandingSounds := removeAll s (outstandingSounds st1)\<rparr>)"

text \<open>The events of Sound \<open>s\<close> that reached a subscriber, in order.\<close>

definition heard :: "nat \<Rightarrow> speaker \<Rightarrow> event list" where
  "heard s st = map (\<lambda>x. fst (snd x)) (filter (\<lambda>x. fst x = s \<and> snd (snd x)) (emitted st))"

text \<open>An id that has been issued and is no longer a key of the registry.\<close>

definition gone :: "nat \<Rightarrow> speaker \<Rightarrow> bool" where
  "gone s st = (s \<le> idCounter st \<and> s \<notin> set (outstandingSounds st))"


text \<open>An existing slot object whose deferred-pause flag is set.\<close>

definition flagged :: "nat \<Rightarrow> speaker \<Rightarrow> bool" where
  "flagged a st = (a < nslots st \<and> pauseAfterPlay (slots st a))"

section \<open>Concrete inputs\<close>

text \<open>Options with a start position of one second and a two-second fade-in.\<close>

definition opts_fade_in :: options where
  "opts_fade_in = \<lparr> opt_startPosition = Num 1000, opt_endPosition = Undefined,
     opt_fadeInSeconds = Num 2, opt_fadeOutSeconds = Undefined, opt_gain = Undefined,
     opt_handlers = [Play, Finish] \<rparr>"

text \<open>Options with a handler for every event and nothing else.\<close>

definition opts_all :: options where
  "opts_all = \<lparr> opt_startPosition = Undefined, opt_endPosition = Undefined,
     opt_fadeInSeconds = Undefined, opt_fadeOutSeconds = Undefined, opt_gain = Undefined,
     opt_handlers = [Play, Pause, Finish, Elapse] \<rparr>"

text \<open>\<open>initializeAudio()\<close> and its completion: slots 0 (active), 1 (fading) and
  2 (preparing), all on the silence clip.\<close>

definition started :: "action list" where
  "started = [InitializeAudio,
     InitResolved SILENCE 0 (Num (1/4)) 0 (Num (1/4)) 0 (Num (1/4))]"

text \<open>Then Sound 1 is created for the clip \<open>a\<close> and its player (slot 3, ten seconds long)
  has become the preparing slot.\<close>

definition prepared :: "options \<Rightarrow> action list" where
  "prepared ops = started @ [Create ''a'' (Some ops), PrepareResolved ''a'' None 0 (Num 10)]"

text \<open>Then \<open>play()\<close> is called on Sound 1: slot 3 is active and its start call is
  outstanding.\<close>

definition starting :: "options \<Rightarrow> action list" where
  "starting ops = prepared ops @ [PlaySound 1]"

text \<open>Then the start call resolves: Sound 1 is bound to slot 3 and playing.\<close>

definition bound_and_playing :: "options \<Rightarrow> action list" where
  "bound_and_playing ops = starting ops @ [StartResolved 3 1]"

text \<open>A speaker with Sound 1 prepared and a second Sound, 2, registered.\<close>

definition two_sounds :: speaker where
  "two_sounds = run (prepared opts_all @ [Create ''b'' None]) new_Speaker"

text \<open>A speaker on which the start call of Sound 1 is outstanding on slot 3.\<close>

definition start_outstanding :: speaker where
  "start_outstanding = run (starting opts_all) new_Speaker"

text \<open>
  While the start call of Sound 1 is outstanding on slot 3, Sound 2 is created for the clip
  \<open>b\<close>, prepared (slot 4) and played, which returns slot 3, still pointing at the clip
  \<open>a\<close>, to the preparing role. Then a new Sound, 3, is created for the clip \<open>a\<close> and played:
  the preparing slot already points at its URL, so its start call is issued on slot 3.
\<close>

definition later_on_slot_3 :: "action list" where
  "later_on_slot_3 = [Create ''b'' (Some opts_all),
     PrepareResolved ''b'' None 0 (Num 10), PlaySound 2, StartResolved 4 2,
     Create ''a'' (Some opts_all), PlaySound 3]"

text \<open>Options with an end position of one second.\<close>

definition opts_end :: options where
  "opts_end = \<lparr> opt_startPosition = Undefined, opt_endPosition = Num 1000,
     opt_fadeInSeconds = Undefined, opt_fadeOutSeconds = Undefined, opt_gain = Undefined,
     opt_handlers = [Play, Pause, Finish, Elapse] \<rparr>"

text \<open>Options with a three-second fade-out and no end position.\<close>

definition opts_fade_out :: options where
  "opts_fade_out = \<lparr> opt_startPosition = Undefined, opt_endPosition = Undefined,
     opt_fadeInSeconds = Undefined, opt_fadeOutSeconds = Num 3, opt_gain = Undefined,
     opt_handlers = [Play, Pause, Finish, Elapse] \<rparr>"

text \<open>Options with a three-second fade-out and an end position of five seconds.\<close>

definition opts_fade_out_end :: options where
  "opts_fade_out_end = \<lparr> opt_startPosition = Undefined, opt_endPosition = Num 5000,
     opt_fadeInSeconds = Undefined, opt_fadeOutSeconds = Num 3, opt_gain = Undefined,
     opt_handlers = [Play, Pause, Finish, Elapse] \<rparr>"

text \<open>A Sound with a fade-out and an end position, bound to the active slot 3 and
  playing.\<close>

definition fading_out :: speaker where
  "fading_out = run (bound_and_playing opts_fade_out_end) new_Speaker"

text \<open>A Sound with a fade-out and no end position, its start call outstanding on slot 3.\<close>

definition about_to_start :: speaker where
  "about_to_start = run (starting opts_fade_out) new_Speaker"

text \<open>
  Sound 1 plays on slot 3 and is paused; Sound 2 is created and its player prepared
  (slot 4); then \<open>resume()\<close> of Sound 1 and \<open>play()\<close> of Sound 2 are called one after the
  other, and only then the promise of the resume resolves.
\<close>

definition resume_then_skip :: "action list" where
  "resume_then_skip = bound_and_playing opts_all @ [
     PauseSound 1,
     PauseEvent 3,
     Create ''b'' (Some opts_all),
     PrepareResolved ''b'' None 0 (Num 10),
     PlaySound 1,
     PlaySound 2,
     ResumeResolved 1]"

text \<open>Sound 1 plays on the active slot 3 and a second Sound, 2, has been created.\<close>

definition playing_and_another :: speaker where
  "playing_and_another = run (bound_and_playing opts_all @ [Create ''b'' None]) new_Speaker"

text \<open>
  \<open>play()\<close> is called twice on the new Sound 1 while its clip is still being fetched:
  each call requests a player and chains \<open>assemblePlay\<close> on it. The players become ready
  one after the other (slot 3 is the one \<open>create\<close> requested); the start call on slot 4
  resolves before the second chained \<open>assemblePlay\<close> runs.
\<close>

definition double_play :: "action list" where
  "double_play = started @ [
     Create ''a'' (Some opts_all),
     PlaySound 1,
     PlaySound 1,
     PrepareResolved ''a'' None 0 (Num 10),
     PrepareResolved ''a'' (Some 1) 0 (Num 10),
     StartResolved 4 1,
     PrepareResolved ''a'' (Some 1) 0 (Num 10),
     StartResolved 5 1]"

text \<open>
  The same two calls, made in one turn, on a speaker of the Howl variant, whose
  \<open>_createAudioPlayer\<close> resolves at once and whose \<open>play()\<close> is synchronous: the two
  assignments to \<open>preparing\<close> run (slots 3 and 4), then the two \<open>assemblePlay\<close>. The Howls
  have not finished loading.
\<close>

definition double_play_howl :: "action list" where
  "double_play_howl = [InitializeAudio,
     InitResolvedHowl SILENCE,
     Create ''a'' (Some opts_all),
     PlaySoundHowl False False 1,
     PlaySoundHowl False False 1,
     PrepareResolvedHowl ''a'' (Some 1),
     PrepareResolvedHowl ''a'' (Some 1),
     AssembleHowl False 1,
     AssembleHowl False 1]"

text \<open>A speaker of the Howl variant on which Sound 1, with an end position of one second,
  is bound to the active slot 3 and playing.\<close>

definition howl_playing :: speaker where
  "howl_playing = run [InitializeAudio,
     InitResolvedHowl SILENCE,
     Create ''a'' (Some opts_end),
     PlaySoundHowl False False 1,
     PrepareResolvedHowl ''a'' (Some 1),
     AssembleHowl False 1,
     LoadedHowl 3] new_Speaker"

text \<open>The same with a second Sound, 2, created.\<close>

definition howl_playing_and_another :: speaker where
  "howl_playing_and_another = run [Create ''b'' None] howl_playing"

text \<open>A Sound with an end position of one second, bound to the active slot 3 and playing
  (AudioContext variant).\<close>

definition past_end_position :: speaker where
  "past_end_position = run (bound_and_playing opts_end) new_Speaker"



text \<open>
  Howl variant: \<open>play()\<close> and then \<open>destroy()\<close> are called on the new Sound 1; then the
  player requested by \<open>play()\<close> is ready (slot 3), the chained \<open>assemblePlay\<close> runs, and
  the Howl finishes loading.
\<close>

definition howl_play_destroy :: speaker where
  "howl_play_destroy = run [InitializeAudio,
     InitResolvedHowl SILENCE,
     Create ''a'' (Some opts_all),
     PlaySoundHowl False False 1,
     DestroySoundHowl 1,
     PrepareResolvedHowl ''a'' (Some 1),
     AssembleHowl False 1,
     LoadedHowl 3] new_Speaker"
section \<open>Properties of the speaker\<close>

subsection \<open>The Sound constructor, field by field\<close>

lemma new_Sound_fields:
  "url (new_Sound u opts) = u"
  "startPosition (new_Sound u (Some ops)) = to_number (opt_startPosition ops)"
  "endPosition (new_Sound u (Some ops)) = to_number (opt_endPosition ops)"
  "fadeInSeconds (new_Sound u (Some ops)) = to_number (opt_fadeInSeconds ops)"
  "fadeInStart (new_Sound u (Some ops)) =
     (if truthy (to_number (opt_fadeInSeconds ops))
      then (if truthy (to_number (opt_startPosition ops))
            then jdiv (to_number (opt_startPosition ops)) (Num 1000) else Num 0)
      else Num 0)"
  "fadeInEnd (new_Sound u (Some ops)) =
     (if truthy (to_number (opt_fadeInSeconds ops))
      then jadd (fadeInStart (new_Sound u (Some ops))) (to_number (opt_fadeInSeconds ops))
      else Num 0)"
  "fadeOutSeconds (new_Sound u (Some ops)) = to_number (opt_fadeOutSeconds ops)"
  "fadeOutStart (new_Sound u (Some ops)) =
     (if truthy (to_number (opt_fadeOutSeconds ops))
      then (if truthy (to_number (opt_endPosition ops))
            then jsub (jdiv (to_number (opt_endPosition ops)) (Num 1000))
                      (to_number (opt_fadeOutSeconds ops))
            else Num 0)
      else Undefined)"
  "fadeOutEnd (new_Sound u (Some ops)) =
     (if truthy (to_number (opt_fadeOutSeconds ops))
      then (if truthy (to_number (opt_endPosition ops))
            then jdiv (to_number (opt_endPosition ops)) (Num 1000) else Num 0)
      else Undefined)"
  "gain (new_Sound u (Some ops)) = (if truthy (opt_gain ops) then opt_gain ops else Num 0)"
  "callbacks (new_Sound u (Some ops)) =
     filter (\<lambda>ev. ev \<in> set (opt_handlers ops)) [Play, Pause, Finish, Elapse]"
  by (simp_all add: new_Sound_def Let_def split: option.splits)

subsection \<open>The fade-in envelope\<close>

text \<open>A Sound built from a non-negative \<open>fadeInSeconds\<close> has a numeric fade-in window,
  and the window is not inverted when it is not degenerate.\<close>

lemma new_Sound_fadeIn:
  assumes "sd = new_Sound u (Some opts)"
      and "jle (Num 0) (to_number (opt_fadeInSeconds opts))"
      and "\<not> strict_eq (fadeInStart sd) (fadeInEnd sd)"
  shows "\<exists>a b. fadeInStart sd = Num a \<and> fadeInEnd sd = Num b \<and> a < b"
proof -
  obtain f where f: "to_number (opt_fadeInSeconds opts) = Num f" "0 \<le> f"
    using assms(2) by (cases "to_number (opt_fadeInSeconds opts)") auto
  have "fadeInStart sd \<noteq> NaN" "fadeInStart sd \<noteq> Undefined"
    unfolding assms(1)
    by (cases "to_number (opt_startPosition opts)"; simp add: new_Sound_fields(5))+
  then obtain a where a: "fadeInStart sd = Num a"
    by (cases "fadeInStart sd") auto
  have "fadeInEnd sd = (if f \<noteq> 0 then Num (a + f) else Num 0)"
    using a f unfolding assms(1) by (simp add: new_Sound_fields(6))
  moreover have "f = 0 \<Longrightarrow> fadeInStart sd = Num 0"
    using f unfolding assms(1) by (simp add: new_Sound_fields(5))
  ultimately show ?thesis using a f assms(3) by (cases "f = 0") auto
qed

lemma calculatedVolume_fade_in:
  assumes "fadeInStart sd = Num a" "fadeInEnd sd = Num b" "a < b"
  shows "calculatedVolume v sd a = Num 0"
    and "calculatedVolume v sd b = Num (gainAdjustedVolume sd v)"
    and "a < t \<Longrightarrow> t < b \<Longrightarrow>
           calculatedVolume v sd t = Num ((t - a) / (b - a) * gainAdjustedVolume sd v)"
    and "t < a \<Longrightarrow> calculatedVolume v sd t = Num 0"
  using assms by (simp_all add: calculatedVolume_def Let_def)

text \<open>
  C3. For a Sound created from options whose \<open>fadeInSeconds\<close> is a non-negative number
  (the data model's range) and whose fade-in window is not degenerate
  (\<open>fadeInStart !== fadeInEnd\<close>), for every session volume \<open>v\<close> and every gain: the window
  bounds are numbers \<open>a < b\<close>; the volume computed by \<open>_setVolume\<close> is 0 at \<open>t = a\<close>, the
  gain-adjusted volume at \<open>t = b\<close>, the gain-adjusted volume times
  \<open>(t - a) / (b - a)\<close> strictly inside the window, and 0 before the window.
\<close>

theorem fade_in_envelope:
  assumes "sd = new_Sound u (Some opts)"
      and "jle (Num 0) (to_number (opt_fadeInSeconds opts))"
      and "\<not> strict_eq (fadeInStart sd) (fadeInEnd sd)"
  shows "\<exists>a b. fadeInStart sd = Num a \<and> fadeInEnd sd = Num b \<and> a < b
           \<and> calculatedVolume v sd a = Num 0
           \<and> calculatedVolume v sd b = Num (gainAdjustedVolume sd v)
           \<and> (\<forall>t. a < t \<and> t < b \<longrightarrow>
                 calculatedVolume v sd t = Num ((t - a) / (b - a) * gainAdjustedVolume sd v))
           \<and> (\<forall>t. t < a \<longrightarrow> calculatedVolume v sd t = Num 0)"
proof -
  obtain a b where ab: "fadeInStart sd = Num a" "fadeInEnd sd = Num b" "a < b"
    using new_Sound_fadeIn[OF assms] by blast
  show ?thesis
    using ab calculatedVolume_fade_in[OF ab] by blast
qed

lemma opts_fade_in_sound:
  "fadeInStart (new_Sound ''a'' (Some opts_fade_in)) = Num 1"
  "fadeInEnd (new_Sound ''a'' (Some opts_fade_in)) = Num 3"
  "gain (new_Sound ''a'' (Some opts_fade_in)) = Num 0"
  by (simp_all add: new_Sound_fields opts_fade_in_def)

text \<open>The theorem at a start position of 1 s, a fade-in of 2 s and session volume 80.\<close>

theorem fade_in_envelope_witness:
  "calculatedVolume 80 (new_Sound ''a'' (Some opts_fade_in)) 1 = Num 0
   \<and> calculatedVolume 80 (new_Sound ''a'' (Some opts_fade_in)) 3 = Num (4/5)
   \<and> calculatedVolume 80 (new_Sound ''a'' (Some opts_fade_in)) 2 = Num (2/5)
   \<and> calculatedVolume 80 (new_Sound ''a'' (Some opts_fade_in)) (1/2) = Num 0"
proof -
  let ?sd = "new_Sound ''a'' (Some opts_fade_in)"
  have h2: "jle (Num 0) (to_number (opt_fadeInSeconds opts_fade_in))"
    by (simp add: opts_fade_in_def)
  have h3: "\<not> strict_eq (fadeInStart ?sd) (fadeInEnd ?sd)"
    by (simp add: opts_fade_in_sound)
  from fade_in_envelope[OF refl h2 h3, of 80]
  obtain a b where ab: "fadeInStart ?sd = Num a" "fadeInEnd ?sd = Num b"
     "calculatedVolume 80 ?sd a = Num 0"
     "calculatedVolume 80 ?sd b = Num (gainAdjustedVolume ?sd 80)"
     "\<forall>t. a < t \<and> t < b \<longrightarrow> calculatedVolume 80 ?sd t
        = Num ((t - a) / (b - a) * gainAdjustedVolume ?sd 80)"
     "\<forall>t. t < a \<longrightarrow> calculatedVolume 80 ?sd t = Num 0"
    by blast
  have a: "a = 1" and b: "b = 3" using ab(1,2) by (simp_all add: opts_fade_in_sound)
  have g: "gainAdjustedVolume ?sd 80 = 4/5"
    by (simp add: gainAdjustedVolume_def opts_fade_in_sound)
  have m: "calculatedVolume 80 ?sd 2 = Num (2/5)"
    using ab(5) a b g by simp
  have l: "calculatedVolume 80 ?sd (1/2) = Num 0"
    using ab(6) a by simp
  show ?thesis using ab(3,4) a b g m l by simp
qed

subsection \<open>Every operation is a composition of elementary changes\<close>

lemma state_of_then_do:
  "state_of (then_do r k) = (case r of Done st \<Rightarrow> state_of (k st) | TypeError st \<Rightarrow> st)"
  by (cases r) simp_all

lemma evolve_then_do:
  assumes "evolve st (state_of r)"
      and "\<And>st1. evolve st st1 \<Longrightarrow> evolve st (state_of (k st1))"
  shows "evolve st (state_of (then_do r k))"
  using assms by (cases r) simp_all

lemma evolve_setVolume': "evolve st st1 \<Longrightarrow> evolve st (state_of (setVolume' g so st1))"
  by (auto simp: setVolume'_def Let_def split: option.splits intro!: evolve.intros)

lemma evolve_prepare': "evolve st st1 \<Longrightarrow> evolve st (state_of (prepare' u sp c st1))"
  by (auto simp: prepare'_def Let_def split: option.splits jsval.splits intro!: evolve.intros)

lemma evolve_prepare: "evolve st st1 \<Longrightarrow> evolve st (state_of (prepare u st1))"
  by (auto simp: prepare_def Let_def split: option.splits intro!: evolve.intros evolve_prepare')

lemma evolve_register: 
  assumes "evolve st st1" shows "evolve st (register_sound u opts st1)"
proof -
  have "register_sound u opts st1 =
     st1\<lparr>idCounter := Suc (idCounter st1),
                    sounds := (sounds st1)(Suc (idCounter st1) := new_Sound u opts),
                    outstandingSounds :=
                      (if Suc (idCounter st1) \<in> set (outstandingSounds st1)
                       then outstandingSounds st1
                       else outstandingSounds st1 @ [Suc (idCounter st1)])\<rparr>"
    by (simp add: register_sound_def uniqueId_def Let_def)
  then show ?thesis using ev_register[OF assms] by simp
qed

lemma evolve_create: "evolve st st1 \<Longrightarrow> evolve st (state_of (snd (create u opts st1)))"
  unfolding create_def Let_def
  by (auto split: option.splits intro!: evolve_prepare' evolve_register evolve.intros)

lemma evolve_setVolume'_howl:
  "evolve st st1 \<Longrightarrow> evolve st (state_of (setVolume'_howl g so st1))"
  by (auto simp: setVolume'_howl_def Let_def split: option.splits intro!: evolve.intros)

lemma evolve_swap_in:
  assumes "\<And>g so st2. evolve st st2 \<Longrightarrow> evolve st (state_of (setvol g so st2))"
  shows "evolve st st1 \<Longrightarrow> evolve st (state_of (swap_in setvol s st1))"
  unfolding swap_in_def Let_def
  by (auto split: option.splits intro!: evolve_then_do assms evolve.intros)

lemma evolve_play_succeeded: "evolve st st1 \<Longrightarrow> evolve st (play_succeeded p me s st1)"
  unfolding play_succeeded_def Let_def
  by (auto split: option.splits jsval.splits intro!: evolve.intros)

lemma evolve_startResolved: "evolve st st1 \<Longrightarrow> evolve st (startResolved me s st1)"
  unfolding startResolved_def by (rule evolve_play_succeeded)

lemma evolve_assemblePlay: "evolve st st1 \<Longrightarrow> evolve st (state_of (assemblePlay s st1))"
  unfolding assemblePlay_def
  by (auto split: option.splits
      intro!: evolve_then_do evolve_swap_in evolve_setVolume' evolve.intros)

lemma evolve_assemblePlay_howl:
  "evolve st st1 \<Longrightarrow> evolve st (state_of (assemblePlay_howl throws s st1))"
  unfolding assemblePlay_howl_def
  by (auto split: option.splits
      intro!: evolve_then_do evolve_swap_in evolve_setVolume'_howl evolve_play_succeeded
        evolve.intros)

lemma evolve_playSound': "evolve st st1 \<Longrightarrow> evolve st (state_of (playSound' s st1))"
  unfolding playSound'_def Let_def
  by (auto split: option.splits intro!: evolve_assemblePlay evolve_prepare' evolve.intros)

lemma evolve_timeupdate_fading:
  "evolve st st1 \<Longrightarrow> evolve st (state_of (timeupdate_fading f fs st1))"
  unfolding timeupdate_fading_def
  by (auto intro!: evolve_setVolume' evolve.intros)

lemma evolve_rotate_to_fading:
  "evolve st st1 \<Longrightarrow> evolve st (state_of (rotate_to_fading st1))"
  unfolding rotate_to_fading_def Let_def
  by (auto split: option.splits intro!: evolve.intros)

lemma evolve_timeupdate_active:
  "evolve st st1 \<Longrightarrow> evolve st (state_of (timeupdate_active a s st1))"
  unfolding timeupdate_active_def
  by (auto intro!: evolve_then_do evolve_setVolume' evolve_rotate_to_fading evolve.intros)

lemma evolve_retry_prepare:
  "evolve st st1 \<Longrightarrow> evolve st (state_of (retry_prepare st1))"
  unfolding retry_prepare_def
  by (auto split: option.splits intro!: evolve_prepare)

lemma evolve_ontimeupdate:
  "evolve st st1 \<Longrightarrow> evolve st (state_of (ontimeupdate x st1))"
  unfolding ontimeupdate_def
  by (auto split: option.splits
      intro!: evolve_then_do evolve_timeupdate_active evolve_timeupdate_fading evolve_retry_prepare)


lemma evolve_prepare_howl: "evolve st st1 \<Longrightarrow> evolve st (state_of (prepare_howl u st1))"
  by (auto simp: prepare_howl_def split: option.splits intro!: evolve.intros evolve_prepare')

lemma evolve_playSound_howl:
  "evolve st st1 \<Longrightarrow> evolve st (state_of (playSound_howl throws tf s st1))"
  unfolding playSound_howl_def Let_def
  by (auto split: option.splits
      intro!: evolve_assemblePlay_howl evolve_prepare' evolve.intros)

lemma evolve_howl_handlers:
  assumes "evolve st st1"
  shows "evolve st (state_of (on_end_howl st1))"
    and "evolve st (state_of (on_fade_howl x st1))"
    and "evolve st (state_of (ontimeupdate_howl st1))"
    and "evolve st (state_of (setVolume_howl v st1))"
    and "evolve st (initResolved_howl u st1)"
    and "evolve st (prepareResolved_howl u c st1)"
  using assms
  unfolding on_end_howl_def on_fade_howl_def ontimeupdate_howl_def setVolume_howl_def
    initResolved_howl_def prepareResolved_howl_def Let_def
  by (auto split: option.splits
      intro!: evolve_then_do evolve_setVolume'_howl evolve_rotate_to_fading
        evolve_prepare_howl evolve_assemblePlay_howl evolve.intros)

lemma evolve_handlers:
  assumes "evolve st st1"
  shows "evolve st (state_of (on_closed x st1))"
    and "evolve st (state_of (on_pause x st1))"
    and "evolve st (state_of (pollTime x t st1))"
    and "evolve st (state_of (setVolume v st1))"
    and "evolve st (state_of (resumeRejected s st1))"
    and "evolve st (state_of (fadingResumeRejected st1))"
    and "evolve st (resumeResolved s st1)"
    and "evolve st (startRejected s st1)"
    and "evolve st (initializeAudio st1)"
    and "evolve st (initResolved u t1 d1 t2 d2 t3 d3 st1)"
    and "evolve st (state_of (prepareResolved u c t d st1))"
    and "evolve st (pauseSound' s st1)"
    and "evolve st (pauseSound_howl s st1)"
    and "evolve st (destroySound' s st1)"
    and "evolve st (destroySound_howl s st1)"
  using assms
  unfolding on_closed_def on_pause_def pollTime_def setVolume_def resumeRejected_def
      fadingResumeRejected_def resumeResolved_def startRejected_def initializeAudio_def
      initResolved_def prepareResolved_def pauseSound'_def pauseSound_howl_def
      destroySound'_def destroySound_howl_def Let_def
  by (auto split: option.splits
      intro!: evolve_ontimeupdate evolve_setVolume' evolve_assemblePlay evolve.intros)

lemma evolve_fold:
  assumes "\<And>x st1. evolve st st1 \<Longrightarrow> evolve st (f x st1)"
  shows "evolve st st1 \<Longrightarrow> evolve st (fold f xs st1)"
  by (induction xs arbitrary: st1) (simp_all add: assms)

lemma evolve_flush:
  assumes "evolve st st1"
  shows "evolve st (flush st1)" and "evolve st (flush_howl st1)"
  unfolding flush_def flush_howl_def
  by (rule evolve_fold[OF _ assms], rule evolve_handlers, assumption)+

lemma evolve_settle:
  assumes "\<And>st2. evolve st st2 \<Longrightarrow> evolve st (state_of (k st2))" and "evolve st st1"
  shows "evolve st (settle p k st1)"
  unfolding settle_def using assms by (auto intro!: evolve.intros)

lemma evolve_player_event:
  assumes "\<And>st2. evolve st st2 \<Longrightarrow> evolve st (state_of (k st2))" and "evolve st st1"
  shows "evolve st (player_event x k st1)"
  unfolding player_event_def using assms by auto

lemma evolve_step: "evolve st st1 \<Longrightarrow> evolve st (step a st1)"
  by (cases a)
     (auto intro!: evolve_settle evolve_player_event evolve_handlers evolve_flush
        evolve_create evolve_prepare evolve_playSound' evolve_startResolved
        evolve_howl_handlers evolve_prepare_howl evolve_playSound_howl
        evolve_assemblePlay_howl evolve.intros)

lemma evolve_run: "evolve st st1 \<Longrightarrow> evolve st (run acts st1)"
  unfolding run_def by (induction acts arbitrary: st1) (simp_all add: evolve_step)


lemmas prim_defs = upd_group_def upd_audio_def upd_sound_def add_promise_def trigger_def
  off_def alloc_def

lemma gone_evolve: "evolve st st' \<Longrightarrow> gone s st \<Longrightarrow> gone s st'"
  by (induction rule: evolve.induct) (auto simp: gone_def prim_defs)

lemma flagged_evolve: "evolve st st' \<Longrightarrow> flagged a st \<Longrightarrow> flagged a st'"
  by (induction rule: evolve.induct) (auto simp: flagged_def prim_defs)


lemma gone_run: "gone s st \<Longrightarrow> gone s (run acts st)"
  using evolve_run[OF ev_refl] gone_evolve by blast

lemma flagged_run: "flagged a st \<Longrightarrow> flagged a (run acts st)"
  using evolve_run[OF ev_refl] flagged_evolve by blast


subsection \<open>The registry\<close>

lemma destroySound'_registry:
  "outstandingSounds (destroySound' s st) = removeAll s (outstandingSounds st)"
  "idCounter (destroySound' s st) = idCounter st"
  "callbacks (sounds (destroySound' s st) i) = (if i = s then [] else callbacks (sounds st i))"
  "emitted (destroySound' s st) = emitted st"
  by (simp_all add: destroySound'_def Let_def prim_defs split: option.splits)

lemma destroySound_howl_registry:
  "outstandingSounds (destroySound_howl s st) = removeAll s (outstandingSounds st)"
  "idCounter (destroySound_howl s st) = idCounter st"
  "callbacks (sounds (destroySound_howl s st) i) = (if i = s then [] else callbacks (sounds st i))"
  "emitted (destroySound_howl s st) = emitted st"
  by (simp_all add: destroySound_howl_def Let_def prim_defs split: option.splits)

lemma filter_removeAll: "filter P (removeAll x ys) = filter (\<lambda>i. i \<noteq> x \<and> P i) ys"
  by (induction ys) auto

lemma fold_destroySound':
  "outstandingSounds (fold destroySound' xs st) = filter (\<lambda>i. i \<notin> set xs) (outstandingSounds st)"
  "i \<in> set xs \<Longrightarrow> callbacks (sounds (fold destroySound' xs st) i) = []"
  "callbacks (sounds st i) = [] \<Longrightarrow> callbacks (sounds (fold destroySound' xs st) i) = []"
proof (induction xs arbitrary: st)
  case Nil
  { case 1 show ?case by simp }
  { case 2 then show ?case by simp }
  { case 3 then show ?case by simp }
next
  case (Cons x xs)
  { case 1 show ?case
      using Cons(1)[of "destroySound' x st"]
      by (simp add: destroySound'_registry filter_removeAll conj_commute) }
  { case 2 then show ?case
      using Cons(2)[of "destroySound' x st"] Cons(3)[of "destroySound' x st"]
      by (auto simp: destroySound'_registry) }
  { case 3 then show ?case
      using Cons(3)[of "destroySound' x st"] by (simp add: destroySound'_registry) }
qed

lemma fold_destroySound_howl:
  "outstandingSounds (fold destroySound_howl xs st) = filter (\<lambda>i. i \<notin> set xs) (outstandingSounds st)"
  "i \<in> set xs \<Longrightarrow> callbacks (sounds (fold destroySound_howl xs st) i) = []"
  "callbacks (sounds st i) = [] \<Longrightarrow> callbacks (sounds (fold destroySound_howl xs st) i) = []"
proof (induction xs arbitrary: st)
  case Nil
  { case 1 show ?case by simp }
  { case 2 then show ?case by simp }
  { case 3 then show ?case by simp }
next
  case (Cons x xs)
  { case 1 show ?case
      using Cons(1)[of "destroySound_howl x st"]
      by (simp add: destroySound_howl_registry filter_removeAll conj_commute) }
  { case 2 then show ?case
      using Cons(2)[of "destroySound_howl x st"] Cons(3)[of "destroySound_howl x st"]
      by (auto simp: destroySound_howl_registry) }
  { case 3 then show ?case
      using Cons(3)[of "destroySound_howl x st"] by (simp add: destroySound_howl_registry) }
qed

text \<open>
  C8. For every Sound \<open>s\<close> that has been created (its id has been issued): the registry does
  not contain its id once \<open>destroy(s)\<close> has returned, in either variant of \<open>_destroySound\<close>,
  and does not contain it after any further sequence of operations, completions and player
  events; after \<open>flush()\<close> the registry is empty and every Sound that was registered has
  been destroyed (it has no subscribers left and is not registered).
\<close>

theorem registry_after_destroy:
  assumes "s \<le> idCounter st"
  shows "s \<notin> set (outstandingSounds (destroySound' s st))
       \<and> s \<notin> set (outstandingSounds (destroySound_howl s st))
       \<and> s \<notin> set (outstandingSounds (run acts (destroySound' s st)))
       \<and> s \<notin> set (outstandingSounds (run acts (destroySound_howl s st)))
       \<and> outstandingSounds (flush st) = []
       \<and> outstandingSounds (flush_howl st) = []
       \<and> (\<forall>i \<in> set (outstandingSounds st).
             callbacks (sounds (flush st) i) = [] \<and> callbacks (sounds (flush_howl st) i) = [])"
proof -
  have g1: "gone s (destroySound' s st)" and g2: "gone s (destroySound_howl s st)"
    using assms by (simp_all add: gone_def destroySound'_registry destroySound_howl_registry)
  have "gone s (run acts (destroySound' s st))" "gone s (run acts (destroySound_howl s st))"
    using g1 g2 by (simp_all add: gone_run)
  moreover have "outstandingSounds (flush st) = []" "outstandingSounds (flush_howl st) = []"
    by (simp_all add: flush_def flush_howl_def fold_destroySound'(1) fold_destroySound_howl(1))
  moreover have "\<forall>i \<in> set (outstandingSounds st).
             callbacks (sounds (flush st) i) = [] \<and> callbacks (sounds (flush_howl st) i) = []"
    by (simp add: flush_def flush_howl_def fold_destroySound'(2) fold_destroySound_howl(2))
  ultimately show ?thesis using g1 g2 by (simp add: gone_def)
qed

text \<open>The theorem on a speaker with the Sounds 1 and 2 registered.\<close>

theorem registry_after_destroy_witness:
  "outstandingSounds two_sounds = [1, 2]
   \<and> 1 \<notin> set (outstandingSounds (destroySound' 1 two_sounds))
   \<and> 1 \<notin> set (outstandingSounds (run [Create ''c'' None, PlaySound 2] (destroySound' 1 two_sounds)))
   \<and> outstandingSounds (flush two_sounds) = []
   \<and> callbacks (sounds (flush two_sounds) 1) = []
   \<and> callbacks (sounds (flush two_sounds) 2) = []"
proof -
  have h: "1 \<le> idCounter two_sounds" by code_simp
  have r: "outstandingSounds two_sounds = [1, 2]" by code_simp
  show ?thesis
    using registry_after_destroy[OF h, of "[Create ''c'' None, PlaySound 2]"] r by simp
qed

subsection \<open>The completion of a start call\<close>

lemma play_succeeded_registered:
  assumes "s \<in> set (outstandingSounds st)"
  shows "pauseAfterPlay (slots st me) \<Longrightarrow>
           emitted (play_succeeded p me s st)
             = emitted st @ [(s, Play, Play \<in> set (callbacks (sounds st s)))]"
    and "pauseAfterPlay (slots (play_succeeded p me s st) me) = pauseAfterPlay (slots st me)"
    and "pauseAfterPlay (slots st me) \<Longrightarrow> paused (audio (slots (play_succeeded p me s st) me))"
    and "sound (slots (play_succeeded p me s st) me) = Some s"
  using assms
  by (auto simp: play_succeeded_def Let_def prim_defs)


lemma pauseSound_sets_flag:
  assumes "active st = Some a" and "sound (slots st a) \<noteq> Some s"
  shows "Some (url (sounds st s)) = src (audio (slots st a)) \<Longrightarrow>
           pauseAfterPlay (slots (pauseSound' s st) a)"
    and "url (sounds st s) = slot_url (slots st a) \<Longrightarrow>
           pauseAfterPlay (slots (pauseSound_howl s st) a)"
    and "nslots (pauseSound' s st) = nslots st" and "nslots (pauseSound_howl s st) = nslots st"
  using assms
  by (auto simp: pauseSound'_def pauseSound_howl_def Let_def prim_defs split: option.splits)

text \<open>
  C10. Let \<open>pause()\<close> be called for a Sound \<open>s\<close> whose start call is outstanding on the
  active slot \<open>a\<close> (the slot points at the Sound's URL and the Sound is not bound yet), in
  either variant of \<open>_pauseSound\<close>. Then the deferred-pause flag of \<open>a\<close> is set, and it is
  still set after any sequence of operations, completions and player events. So when the
  start call of any registered Sound \<open>s'\<close> later resolves on that slot object, exactly
  \<open>play\<close> is triggered on \<open>s'\<close>, the player is paused, and the flag stays set.
\<close>

theorem deferred_pause_flag_never_cleared:
  assumes "active st = Some a" and "a < nslots st"
      and "sound (slots st a) \<noteq> Some s"
      and "st0 = pauseSound' s st \<and> Some (url (sounds st s)) = src (audio (slots st a))
           \<or> st0 = pauseSound_howl s st \<and> url (sounds st s) = slot_url (slots st a)"
      and "st1 = run acts st0"
      and "s' \<in> set (outstandingSounds st1)"
  shows "pauseAfterPlay (slots st0 a) \<and> pauseAfterPlay (slots st1 a)
       \<and> emitted (play_succeeded p a s' st1)
           = emitted st1 @ [(s', Play, Play \<in> set (callbacks (sounds st1 s')))]
       \<and> paused (audio (slots (play_succeeded p a s' st1) a))
       \<and> pauseAfterPlay (slots (play_succeeded p a s' st1) a)"
proof -
  have f0: "flagged a st0"
    using assms(1-4) pauseSound_sets_flag[OF assms(1,3)] by (auto simp: flagged_def)
  then have f1: "flagged a st1" unfolding assms(5) by (rule flagged_run)
  show ?thesis
    using f0 f1 play_succeeded_registered[OF assms(6), where me=a and p=p] by (simp add: flagged_def)
qed

text \<open>The theorem where the later Sound is Sound 3 of \<open>later_on_slot_3\<close>.\<close>

theorem deferred_pause_flag_never_cleared_witness:
  "pauseAfterPlay (slots (pauseSound' 1 start_outstanding) 3)
   \<and> pauseAfterPlay (slots (run later_on_slot_3 (pauseSound' 1 start_outstanding)) 3)
   \<and> StartPending 3 3 \<in> set (promises (run later_on_slot_3 (pauseSound' 1 start_outstanding)))
   \<and> emitted (startResolved 3 3 (run later_on_slot_3 (pauseSound' 1 start_outstanding)))
       = emitted (run later_on_slot_3 (pauseSound' 1 start_outstanding)) @ [(3, Play, True)]
   \<and> paused (audio (slots (startResolved 3 3
                (run later_on_slot_3 (pauseSound' 1 start_outstanding))) 3))"
proof -
  let ?st = start_outstanding
  let ?st1 = "run later_on_slot_3 (pauseSound' 1 ?st)"
  have h1: "active ?st = Some 3" by code_simp
  have h2: "3 < nslots ?st" by code_simp
  have h3: "sound (slots ?st 3) \<noteq> Some 1" by code_simp
  have h4: "Some (url (sounds ?st 1)) = src (audio (slots ?st 3))" by code_simp
  have h6: "3 \<in> set (outstandingSounds ?st1)" by code_simp
  have c: "Play \<in> set (callbacks (sounds ?st1 3))" by code_simp
  have p: "StartPending 3 3 \<in> set (promises ?st1)" by code_simp
  have h4': "pauseSound' 1 ?st = pauseSound' 1 ?st
               \<and> Some (url (sounds ?st 1)) = src (audio (slots ?st 3))
          \<or> pauseSound' 1 ?st = pauseSound_howl 1 ?st
               \<and> url (sounds ?st 1) = slot_url (slots ?st 3)"
    using h4 by simp
  show ?thesis
    using deferred_pause_flag_never_cleared[OF h1 h2 h3 h4' refl h6, where p=paused] c p
    by (simp add: startResolved_def)
qed




text \<open>
  In the Howl variant the URL of a slot is kept in \<open>slot.url\<close>, and nothing assigns it to
  the \<open>src\<close> of the Howl, which the test \<open>me.audio.src === sound.url\<close> of \<open>assemblePlay\<close>
  reads (line 691). After \<open>play(); destroy()\<close> on a new Sound the Howl started for it is
  therefore left playing; no event is triggered.
\<close>

lemma howl_start_after_destroy:
  "active howl_play_destroy = Some 3
   \<and> 1 \<notin> set (outstandingSounds howl_play_destroy)
   \<and> slot_url (slots howl_play_destroy 3) = ''a''
   \<and> src (audio (slots howl_play_destroy 3)) = None
   \<and> playing (audio (slots howl_play_destroy 3))
   \<and> emitted howl_play_destroy = []"
  by code_simp

subsection \<open>Position updates of the active player\<close>

lemma retry_prepare_frame:
  "slots (state_of (retry_prepare st)) = slots st"
  "emitted (state_of (retry_prepare st)) = emitted st"
  "active (state_of (retry_prepare st)) = active st"
  "fading (state_of (retry_prepare st)) = fading st"
  "sounds (state_of (retry_prepare st)) = sounds st"
  by (simp_all add: retry_prepare_def prepare_def prepare'_def Let_def prim_defs
      split: option.splits)

lemma timeupdate_active_finish:
  assumes "sound (slots st a) = Some s"
      and "reached (endPosition (sounds st s)) (currentTime (audio (slots st a)))"
  shows "timeupdate_active a s st =
     Done (trigger s Finish (upd_audio a (\<lambda>a. a\<lparr>src := Some SILENCE\<rparr>)
            (upd_group a (\<lambda>g. g\<lparr>sound := None\<rparr>) st)))"
  using assms by (simp add: timeupdate_active_def)

lemma timeupdate_active_fade:
  assumes "sound (slots st a) = Some s" and "active st = Some a" and "fading st = Some f"
      and "a \<noteq> f"
      and "\<not> reached (endPosition (sounds st s)) (currentTime (audio (slots st a)))"
      and "truthy (fadeOutEnd (sounds st s))"
      and "jle (fadeOutStart (sounds st s)) (currentTime (audio (slots st a)))"
  shows "timeupdate_active a s st =
     Done (trigger s Finish
       (upd_group f (\<lambda>g. g\<lparr>sound := None\<rparr>)
         ((upd_group a (\<lambda>x. x\<lparr>gain_value := volume_at (vol st) (sounds st s)
                                               (currentTime (audio (slots st a))),
                                 volume := volume_at (vol st) (sounds st s)
                                               (currentTime (audio (slots st a)))\<rparr>) st)
            \<lparr>fading := Some a, active := Some f\<rparr>)))"
  using assms
  by (simp add: timeupdate_active_def setVolume'_def rotate_to_fading_def Let_def prim_defs)

lemma timeupdate_active_elapse:
  assumes "sound (slots st a) = Some s"
      and "\<not> reached (endPosition (sounds st s)) (currentTime (audio (slots st a)))"
      and "\<not> (truthy (fadeOutEnd (sounds st s))
             \<and> jle (fadeOutStart (sounds st s)) (currentTime (audio (slots st a))))"
  shows "timeupdate_active a s st =
     Done (trigger s Elapse
         (upd_group a (\<lambda>x. x\<lparr>gain_value := volume_at (vol st) (sounds st s)
                                               (currentTime (audio (slots st a))),
                                 volume := volume_at (vol st) (sounds st s)
                                               (currentTime (audio (slots st a)))\<rparr>) st))"
  using assms
  by (auto simp add: timeupdate_active_def setVolume'_def Let_def prim_defs)

lemma pollTime_active:
  assumes "active st = Some a" and "fading st = Some f" and "a \<noteq> f"
      and "sound (slots st a) = Some s"
      and "src (audio (slots st a)) \<noteq> Some SILENCE"
      and "Some (url (sounds st s)) = src (audio (slots st a))"
  shows "state_of (pollTime a t st)
         = state_of (retry_prepare (state_of (timeupdate_active a s
              (upd_audio a (\<lambda>x. x\<lparr>currentTime := Num t\<rparr>) st))))"
proof -
  have "\<exists>st'. timeupdate_active a s (upd_audio a (\<lambda>x. x\<lparr>currentTime := Num t\<rparr>) st) = Done st'"
    using assms(4)
    by (auto simp add: timeupdate_active_def setVolume'_def rotate_to_fading_def Let_def
        prim_defs assms(1,2,3))
  then show ?thesis
    using assms
    by (auto simp add: pollTime_def ontimeupdate_def prim_defs)
qed

text \<open>
  The guards of the handler: an update of a player whose source is the silence clip, or of
  the active player when its source is not the URL of the Sound bound to the slot, only
  refreshes the player's time.
\<close>

lemma pollTime_ignored:
  "src (audio (slots st x)) = Some SILENCE \<Longrightarrow>
     state_of (pollTime x t st) = upd_audio x (\<lambda>a. a\<lparr>currentTime := Num t\<rparr>) st"
  "active st = Some a \<Longrightarrow> fading st = Some f \<Longrightarrow> a \<noteq> f \<Longrightarrow> sound (slots st a) = Some s \<Longrightarrow>
     Some (url (sounds st s)) \<noteq> src (audio (slots st a)) \<Longrightarrow>
     state_of (pollTime a t st) = upd_audio a (\<lambda>a. a\<lparr>currentTime := Num t\<rparr>) st"
  by (auto simp add: pollTime_def ontimeupdate_def prim_defs)

text \<open>
  The three-way branch of the handler (AudioContext variant). A position update (time
  \<open>t\<close>) is delivered to the player of the active slot \<open>a\<close> while Sound \<open>s\<close> is bound to it,
  the player's source being the Sound's URL. If the Sound has an end position and \<open>t\<close> has
  reached it, the field \<open>src\<close> becomes the silence clip, the Sound is detached and
  \<open>finish\<close> is triggered; the player is not paused and its gain is not touched. Otherwise,
  if \<open>fadeOutEnd\<close> is set and \<open>t >= fadeOutStart\<close>, the volume is recomputed, \<open>active\<close>
  and \<open>fading\<close> are swapped and \<open>finish\<close> is triggered. Otherwise the volume is
  recomputed and \<open>elapse\<close> is triggered.
\<close>

lemma position_update_on_active:
  assumes "active st = Some a" and "fading st = Some f" and "a \<noteq> f"
      and "sound (slots st a) = Some s"
      and "src (audio (slots st a)) \<noteq> Some SILENCE"
      and "Some (url (sounds st s)) = src (audio (slots st a))"
      and "st' = state_of (pollTime a t st)"
      and "sd = sounds st s"
  shows "(reached (endPosition sd) (Num t) \<longrightarrow>
            src (audio (slots st' a)) = Some SILENCE \<and> sound (slots st' a) = None
            \<and> paused (audio (slots st' a)) = paused (audio (slots st a))
            \<and> gain_value (slots st' a) = gain_value (slots st a)
            \<and> emitted st' = emitted st @ [(s, Finish, Finish \<in> set (callbacks sd))]
            \<and> active st' = Some a \<and> fading st' = Some f)
       \<and> (\<not> reached (endPosition sd) (Num t) \<and> truthy (fadeOutEnd sd)
            \<and> jle (fadeOutStart sd) (Num t) \<longrightarrow>
            volume (slots st' a) = calculatedVolume (vol st) sd t
            \<and> active st' = Some f \<and> fading st' = Some a
            \<and> sound (slots st' f) = None \<and> sound (slots st' a) = Some s
            \<and> emitted st' = emitted st @ [(s, Finish, Finish \<in> set (callbacks sd))])
       \<and> (\<not> reached (endPosition sd) (Num t)
            \<and> \<not> (truthy (fadeOutEnd sd) \<and> jle (fadeOutStart sd) (Num t)) \<longrightarrow>
            volume (slots st' a) = calculatedVolume (vol st) sd t
            \<and> active st' = Some a \<and> fading st' = Some f \<and> sound (slots st' a) = Some s
            \<and> emitted st' = emitted st @ [(s, Elapse, Elapse \<in> set (callbacks sd))])"
proof -
  let ?st0 = "upd_audio a (\<lambda>x. x\<lparr>currentTime := Num t\<rparr>) st"
  have st': "st' = state_of (retry_prepare (state_of (timeupdate_active a s ?st0)))"
    unfolding assms(7) by (rule pollTime_active[OF assms(1-6)])
  have p0: "sound (slots ?st0 a) = Some s" "active ?st0 = Some a" "fading ?st0 = Some f"
    "sounds ?st0 = sounds st" "currentTime (audio (slots ?st0 a)) = Num t" "vol ?st0 = vol st"
    using assms(1,2,4) by (simp_all add: prim_defs)
  show ?thesis
  proof (intro conjI impI)
    assume r: "reached (endPosition sd) (Num t)"
    have "reached (endPosition (sounds ?st0 s)) (currentTime (audio (slots ?st0 a)))"
      using r by (simp add: p0 assms(8))
    note e = timeupdate_active_finish[OF p0(1) this]
    show "src (audio (slots st' a)) = Some SILENCE" "sound (slots st' a) = None"
      "paused (audio (slots st' a)) = paused (audio (slots st a))"
      "gain_value (slots st' a) = gain_value (slots st a)"
      "emitted st' = emitted st @ [(s, Finish, Finish \<in> set (callbacks sd))]"
      "active st' = Some a" "fading st' = Some f"
      unfolding st' e using assms(1,2)
      by (simp_all add: retry_prepare_frame prim_defs assms(8))
  next
    assume r: "\<not> reached (endPosition sd) (Num t) \<and> truthy (fadeOutEnd sd)
                 \<and> jle (fadeOutStart sd) (Num t)"
    have e: "timeupdate_active a s ?st0 =
     Done (trigger s Finish
       (upd_group f (\<lambda>g. g\<lparr>sound := None\<rparr>)
         ((upd_group a (\<lambda>x. x\<lparr>gain_value := calculatedVolume (vol st) (sounds st s) t,
                                 volume := calculatedVolume (vol st) (sounds st s) t\<rparr>) ?st0)
            \<lparr>fading := Some a, active := Some f\<rparr>)))"
      using timeupdate_active_fade[OF p0(1,2,3) assms(3)] r
      by (simp add: p0 assms(8) volume_at_def)
    show "volume (slots st' a) = calculatedVolume (vol st) sd t"
      "active st' = Some f" "fading st' = Some a"
      "sound (slots st' f) = None" "sound (slots st' a) = Some s"
      "emitted st' = emitted st @ [(s, Finish, Finish \<in> set (callbacks sd))]"
      unfolding st' e using assms(3,4)
      by (simp_all add: retry_prepare_frame prim_defs assms(8))
  next
    assume r: "\<not> reached (endPosition sd) (Num t)
                 \<and> \<not> (truthy (fadeOutEnd sd) \<and> jle (fadeOutStart sd) (Num t))"
    have e: "timeupdate_active a s ?st0 =
     Done (trigger s Elapse
         (upd_group a (\<lambda>x. x\<lparr>gain_value := calculatedVolume (vol st) (sounds st s) t,
                                 volume := calculatedVolume (vol st) (sounds st s) t\<rparr>) ?st0))"
      using timeupdate_active_elapse[OF p0(1)] r by (simp add: p0 assms(8) volume_at_def)
    show "volume (slots st' a) = calculatedVolume (vol st) sd t"
      "active st' = Some a" "fading st' = Some f" "sound (slots st' a) = Some s"
      "emitted st' = emitted st @ [(s, Elapse, Elapse \<in> set (callbacks sd))]"
      unfolding st' e using assms(1,2,4)
      by (simp_all add: retry_prepare_frame prim_defs assms(8))
  qed
qed

lemma fading_out_facts:
  "active fading_out = Some 3" "fading fading_out = Some 1"
  "sound (slots fading_out 3) = Some 1"
  "src (audio (slots fading_out 3)) \<noteq> Some SILENCE"
  "Some (url (sounds fading_out 1)) = src (audio (slots fading_out 3))"
  "emitted fading_out = [(1, Play, True)]"
  "callbacks (sounds fading_out 1) = [Play, Pause, Finish, Elapse]"
  "endPosition (sounds fading_out 1) = Num 5000"
  "fadeOutStart (sounds fading_out 1) = Num 2"
  "fadeOutEnd (sounds fading_out 1) = Num 5"
  "fadeInStart (sounds fading_out 1) = Num 0"
  "fadeInEnd (sounds fading_out 1) = Num 0"
  "gain (sounds fading_out 1) = Num 0"
  "vol fading_out = 100"
  by code_simp+

text \<open>The branches on \<open>fading_out\<close> (fade-out window from 2 s to 5 s, end position 5 s)
  at the times 1 s, 3 s and 6 s.\<close>

lemma position_update_on_fading_out:
  "emitted (state_of (pollTime 3 1 fading_out)) = [(1, Play, True), (1, Elapse, True)]
   \<and> volume (slots (state_of (pollTime 3 1 fading_out)) 3) = Num 1
   \<and> sound (slots (state_of (pollTime 3 1 fading_out)) 3) = Some 1
   \<and> emitted (state_of (pollTime 3 3 fading_out)) = [(1, Play, True), (1, Finish, True)]
   \<and> volume (slots (state_of (pollTime 3 3 fading_out)) 3) = Num (2 / 3)
   \<and> active (state_of (pollTime 3 3 fading_out)) = Some 1
   \<and> fading (state_of (pollTime 3 3 fading_out)) = Some 3
   \<and> emitted (state_of (pollTime 3 6 fading_out)) = [(1, Play, True), (1, Finish, True)]
   \<and> src (audio (slots (state_of (pollTime 3 6 fading_out)) 3)) = Some SILENCE
   \<and> sound (slots (state_of (pollTime 3 6 fading_out)) 3) = None"
proof -
  note f = fading_out_facts fading_out_facts[unfolded One_nat_def]
  have ne: "(3::nat) \<noteq> 1" by simp
  note th = position_update_on_active[OF f(1) f(2) ne f(3) f(4) f(5) refl refl]
  have v1: "calculatedVolume 100 (sounds fading_out 1) 1 = Num 1"
    and v3: "calculatedVolume 100 (sounds fading_out 1) 3 = Num (2 / 3)"
    by (simp_all add: calculatedVolume_def gainAdjustedVolume_def f)
  show ?thesis
    using th[of 1] th[of 3] th[of 6] v1 v3
    by (simp add: f reached_def)
qed

text \<open>
  C1. The comment on the slots (lines 1090-1091) has a Sound that completed playback
  leave its slot with "the sound property set to null, the audio paused, and audio.src set
  to SILENCE". On \<open>past_end_position\<close> Sound 1, with an end position of one second, is
  bound to the active slot 3 and playing. The position update at 5 s detaches it, triggers
  \<open>finish\<close> and writes the silence clip to the field \<open>src\<close> of the player, which is a
  plain field of the class \<open>AudioPlayer\<close>: the player is not paused and its gain stays at
  1, so the resource is not silenced. In the Howl variant (\<open>howl_playing\<close>, the same
  Sound) the position update only triggers \<open>elapse\<close>: the Sound stays bound and the Howl
  keeps playing past the end position.
\<close>

theorem end_position_leaves_player_playing:
  "active past_end_position = Some 3
   \<and> sound (slots past_end_position 3) = Some 1
   \<and> src (audio (slots past_end_position 3)) = Some ''a''
   \<and> \<not> paused (audio (slots past_end_position 3))
   \<and> gain_value (slots past_end_position 3) = Num 1
   \<and> reached (endPosition (sounds past_end_position 1)) (Num 5)
   \<and> emitted (state_of (pollTime 3 5 past_end_position))
        = emitted past_end_position @ [(1, Finish, True)]
   \<and> sound (slots (state_of (pollTime 3 5 past_end_position)) 3) = None
   \<and> src (audio (slots (state_of (pollTime 3 5 past_end_position)) 3)) = Some SILENCE
   \<and> \<not> paused (audio (slots (state_of (pollTime 3 5 past_end_position)) 3))
   \<and> gain_value (slots (state_of (pollTime 3 5 past_end_position)) 3) = Num 1
   \<and> active howl_playing = Some 3
   \<and> sound (slots howl_playing 3) = Some 1
   \<and> playing (audio (slots howl_playing 3))
   \<and> reached (endPosition (sounds howl_playing 1)) (Num 5)
   \<and> emitted (step (FrameHowl 3 5) howl_playing) = emitted howl_playing @ [(1, Elapse, True)]
   \<and> sound (slots (step (FrameHowl 3 5) howl_playing) 3) = Some 1
   \<and> playing (audio (slots (step (FrameHowl 3 5) howl_playing) 3))"
  by code_simp

subsection \<open>The fade-out bounds\<close>

lemma play_succeeded_fade_out:
  assumes "s \<in> set (outstandingSounds st)"
  shows "fadeOutStart (sounds (play_succeeded p me s st) s) =
           (if truthy (fadeOutSeconds (sounds st s)) \<and> strict_eq (fadeOutEnd (sounds st s)) (Num 0)
            then jsub (duration (audio (slots st me))) (fadeOutSeconds (sounds st s))
            else fadeOutStart (sounds st s))"
    and "fadeOutEnd (sounds (play_succeeded p me s st) s) =
           (if truthy (fadeOutSeconds (sounds st s)) \<and> strict_eq (fadeOutEnd (sounds st s)) (Num 0)
            then duration (audio (slots st me))
            else fadeOutEnd (sounds st s))"
  using assms
  by (auto simp: play_succeeded_def Let_def prim_defs)

text \<open>
  C4 (amended). For a Sound created with a positive \<open>fadeOutSeconds\<close> \<open>f\<close>: if no end
  position is configured (missing or 0), its fade-out bounds are 0 and 0 after creation and
  are \<open>fadeOutStart = duration - f\<close>, \<open>fadeOutEnd = duration\<close> once its start call has
  resolved (the Sound registered, the duration \<open>d\<close> of the player known); if an end
  position \<open>e\<close> is configured, the bounds are \<open>e/1000 - f\<close> and \<open>e/1000\<close> from creation
  on, and the resolution of the start call leaves them so.
\<close>

theorem fade_out_bounds:
  assumes "sounds st s = new_Sound u (Some opts)"
      and "to_number (opt_fadeOutSeconds opts) = Num f" and "0 < f"
      and "s \<in> set (outstandingSounds st)"
      and "duration (audio (slots st me)) = Num d"
  shows "(\<not> truthy (to_number (opt_endPosition opts)) \<longrightarrow>
            fadeOutStart (sounds st s) = Num 0 \<and> fadeOutEnd (sounds st s) = Num 0
            \<and> fadeOutStart (sounds (play_succeeded p me s st) s) = Num (d - f)
            \<and> fadeOutEnd (sounds (play_succeeded p me s st) s) = Num d)
       \<and> (\<forall>e. to_number (opt_endPosition opts) = Num e \<and> e \<noteq> 0 \<longrightarrow>
            fadeOutStart (sounds st s) = Num (e / 1000 - f)
            \<and> fadeOutEnd (sounds st s) = Num (e / 1000)
            \<and> fadeOutStart (sounds (play_succeeded p me s st) s) = Num (e / 1000 - f)
            \<and> fadeOutEnd (sounds (play_succeeded p me s st) s) = Num (e / 1000))"
  using assms(2,3,5)
  by (auto simp: play_succeeded_fade_out[OF assms(4)] assms(1) new_Sound_fields)

text \<open>The theorem for a three-second fade-out on a ten-second clip.\<close>

theorem fade_out_bounds_witness:
  "fadeOutStart (sounds about_to_start 1) = Num 0
   \<and> fadeOutEnd (sounds about_to_start 1) = Num 0
   \<and> duration (audio (slots about_to_start 3)) = Num 10
   \<and> fadeOutStart (sounds (startResolved 3 1 about_to_start) 1) = Num 7
   \<and> fadeOutEnd (sounds (startResolved 3 1 about_to_start) 1) = Num 10"
proof -
  have h1: "sounds about_to_start 1 = new_Sound ''a'' (Some opts_fade_out)" by code_simp
  have h2: "to_number (opt_fadeOutSeconds opts_fade_out) = Num 3" by (simp add: opts_fade_out_def)
  have h3: "(0::real) < 3" by simp
  have h4: "1 \<in> set (outstandingSounds about_to_start)" by code_simp
  have h5: "duration (audio (slots about_to_start 3)) = Num 10" by code_simp
  have h6: "\<not> truthy (to_number (opt_endPosition opts_fade_out))" by (simp add: opts_fade_out_def)
  show ?thesis
    using fade_out_bounds[OF h1 h2 h3 h4 h5, where p=paused] h5 h6 by (simp add: startResolved_def)
qed

text \<open>
  C4 as stated fails: with \<open>fadeOutSeconds = 3\<close> and \<open>endPosition = 5000\<close> on a ten-second
  clip, the bounds after the start call has resolved are 2 and 5, not 7 and 10.
\<close>

theorem fade_out_bounds_with_end_position:
  "fadeOutSeconds (sounds (run (starting opts_fade_out_end) new_Speaker) 1) = Num 3
   \<and> duration (audio (slots (run (starting opts_fade_out_end) new_Speaker) 3)) = Num 10
   \<and> StartPending 3 1 \<in> set (promises (run (starting opts_fade_out_end) new_Speaker))
   \<and> fadeOutStart (sounds (run (bound_and_playing opts_fade_out_end) new_Speaker) 1) = Num 2
   \<and> fadeOutEnd (sounds (run (bound_and_playing opts_fade_out_end) new_Speaker) 1) = Num 5
   \<and> sound (slots (run (bound_and_playing opts_fade_out_end) new_Speaker) 3) = Some 1"
  by code_simp

subsection \<open>\<open>create\<close>\<close>

lemma register_sound_fields:
  "idCounter (register_sound u opts st) = Suc (idCounter st)"
  "Suc (idCounter st) \<in> set (outstandingSounds (register_sound u opts st))"
  "sounds (register_sound u opts st) (Suc (idCounter st)) = new_Sound u opts"
  "active (register_sound u opts st) = active st"
  "preparing (register_sound u opts st) = preparing st"
  "slots (register_sound u opts st) = slots st"
  "promises (register_sound u opts st) = promises st"
  "prepareWhenReady (register_sound u opts st) = prepareWhenReady st"
  "nslots (register_sound u opts st) = nslots st"
  by (simp_all add: register_sound_def uniqueId_def Let_def)

lemma prepare'_fields:
  "idCounter (state_of (prepare' u sp c st)) = idCounter st"
  "outstandingSounds (state_of (prepare' u sp c st)) = outstandingSounds st"
  "sounds (state_of (prepare' u sp c st)) = sounds st"
  "prepareWhenReady (state_of (prepare' u sp c st)) = None"
  "preparing (state_of (prepare' u sp c st)) = preparing st"
  "nslots (state_of (prepare' u sp c st)) = nslots st"
  by (simp_all add: prepare'_def Let_def prim_defs split: option.splits jsval.splits)

lemma prepare'_repoints:
  assumes "preparing st = Some p"
  shows "src (audio (slots st p)) \<noteq> Some u \<Longrightarrow>
           promises (state_of (prepare' u sp c st)) = promises st @ [PreparePending u c]"
    and "src (audio (slots st p)) = Some u \<Longrightarrow>
           src (audio (slots (state_of (prepare' u sp c st)) p)) = Some u"
  using assms
  by (simp_all add: prepare'_def Let_def prim_defs)

lemma prepareResolved_points:
  "preparing (state_of (prepareResolved u None t d st)) = Some (nslots st)"
  "src (audio (slots (state_of (prepareResolved u None t d st)) (nslots st))) = Some u"
  by (simp_all add: prepareResolved_def Let_def prim_defs new_group_def)

text \<open>
  C6 (amended). \<open>create(url, options)\<close> returns a Sound whose id is greater than every
  id issued before, and the Sound is in the registry under that id when the call returns.
  If no slots exist yet, \<open>url\<close> becomes the pending URL (replacing any other). If slots
  exist and the preparing player is on the silence clip, the pending URL is cleared and a
  player for \<open>url\<close> is requested, which becomes the preparing slot when it is ready (for
  the silence clip itself the preparing slot already points at it). If slots exist and the
  preparing player is not on the silence clip, neither happens: the pending URL, the
  preparing slot, the outstanding calls and all players are left as they were.
\<close>

theorem create_registers_and_prepares:
  assumes "i = fst (create u opts st)" and "st' = state_of (snd (create u opts st))"
  shows "idCounter st < i \<and> idCounter st' = i \<and> i \<in> set (outstandingSounds st')
       \<and> sounds st' i = new_Sound u opts
       \<and> (active st = None \<longrightarrow> prepareWhenReady st' = Some u)
       \<and> (\<forall>a p. active st = Some a \<and> preparing st = Some p \<and> src (audio (slots st p)) = Some SILENCE \<longrightarrow>
             prepareWhenReady st' = None
             \<and> (u \<noteq> SILENCE \<longrightarrow>
                   promises st' = promises st @ [PreparePending u None]
                   \<and> (\<forall>t d. preparing (state_of (prepareResolved u None t d st')) = Some (nslots st')
                          \<and> src (audio (slots (state_of (prepareResolved u None t d st')) (nslots st'))) = Some u))
             \<and> (u = SILENCE \<longrightarrow> preparing st' = Some p \<and> src (audio (slots st' p)) = Some u))
       \<and> (\<forall>a p. active st = Some a \<and> preparing st = Some p \<and> src (audio (slots st p)) \<noteq> Some SILENCE \<longrightarrow>
             prepareWhenReady st' = prepareWhenReady st \<and> preparing st' = preparing st
             \<and> promises st' = promises st \<and> slots st' = slots st)"
proof -
  let ?r = "register_sound u opts st"
  have i: "i = Suc (idCounter st)"
    unfolding assms(1) by (simp add: create_def Let_def uniqueId_def)
  have st': "st' = state_of (case active ?r of
               None \<Rightarrow> Done (?r\<lparr>prepareWhenReady := Some u\<rparr>)
             | Some a \<Rightarrow>
                 (case preparing ?r of
                    None \<Rightarrow> TypeError ?r
                  | Some p \<Rightarrow>
                      if src (audio (slots ?r p)) = Some SILENCE
                      then prepare' u (startPosition (sounds ?r i)) None ?r
                      else Done ?r))"
    unfolding assms(2) i by (simp add: create_def Let_def uniqueId_def)
  have a: "idCounter st < i \<and> idCounter st' = i \<and> i \<in> set (outstandingSounds st')
       \<and> sounds st' i = new_Sound u opts"
    unfolding st' i
    by (simp add: register_sound_fields prepare'_fields split: option.splits)
  have b: "active st = None \<longrightarrow> prepareWhenReady st' = Some u"
    unfolding st' by (simp add: register_sound_fields)
  have c: "prepareWhenReady st' = None
             \<and> (u \<noteq> SILENCE \<longrightarrow>
                   promises st' = promises st @ [PreparePending u None]
                   \<and> (\<forall>t d. preparing (state_of (prepareResolved u None t d st')) = Some (nslots st')
                          \<and> src (audio (slots (state_of (prepareResolved u None t d st')) (nslots st'))) = Some u))
             \<and> (u = SILENCE \<longrightarrow> preparing st' = Some p \<and> src (audio (slots st' p)) = Some u)"
    if h: "active st = Some a" "preparing st = Some p" "src (audio (slots st p)) = Some SILENCE" for a p
  proof -
    have p: "preparing ?r = Some p" using h(2) by (simp add: register_sound_fields)
    have e: "st' = state_of (prepare' u (startPosition (sounds ?r i)) None ?r)"
      unfolding st' using h by (simp add: register_sound_fields)
    have r: "\<forall>t d. preparing (state_of (prepareResolved u None t d st')) = Some (nslots st')
                 \<and> src (audio (slots (state_of (prepareResolved u None t d st')) (nslots st'))) = Some u"
      by (simp add: prepareResolved_points)
    have "prepareWhenReady st' = None
          \<and> (u \<noteq> SILENCE \<longrightarrow> promises st' = promises st @ [PreparePending u None])
          \<and> (u = SILENCE \<longrightarrow> preparing st' = Some p \<and> src (audio (slots st' p)) = Some u)"
      unfolding e
      using prepare'_repoints[OF p, of u "startPosition (sounds ?r i)" None] h
      by (auto simp: prepare'_fields register_sound_fields)
    then show ?thesis using r by blast
  qed
  have d: "prepareWhenReady st' = prepareWhenReady st \<and> preparing st' = preparing st
             \<and> promises st' = promises st \<and> slots st' = slots st"
    if h: "active st = Some a" "preparing st = Some p" "src (audio (slots st p)) \<noteq> Some SILENCE" for a p
    unfolding st' using h by (simp add: register_sound_fields)
  show ?thesis using a b c d by blast
qed

text \<open>The theorem on a speaker just initialised, and on a new one.\<close>

theorem create_registers_and_prepares_witness:
  "fst (create ''a'' None (run started new_Speaker)) = 1
   \<and> outstandingSounds (state_of (snd (create ''a'' None (run started new_Speaker)))) = [1]
   \<and> prepareWhenReady (state_of (snd (create ''a'' None (run started new_Speaker)))) = None
   \<and> promises (state_of (snd (create ''a'' None (run started new_Speaker)))) = [PreparePending ''a'' None]
   \<and> preparing (state_of (prepareResolved ''a'' None 0 (Num 10)
         (state_of (snd (create ''a'' None (run started new_Speaker)))))) = Some 3
   \<and> src (audio (slots (state_of (prepareResolved ''a'' None 0 (Num 10)
         (state_of (snd (create ''a'' None (run started new_Speaker)))))) 3)) = Some ''a''
   \<and> prepareWhenReady (state_of (snd (create ''a'' None new_Speaker))) = Some ''a''"
proof -
  let ?st = "run started new_Speaker"
  have h: "active ?st = Some 0 \<and> preparing ?st = Some 2
             \<and> src (audio (slots ?st 2)) = Some SILENCE"
    by code_simp
  have n: "''a'' \<noteq> SILENCE" by (simp add: SILENCE_def)
  have k: "idCounter ?st = 0" "outstandingSounds (state_of (snd (create ''a'' None ?st))) = [1]"
    "promises ?st = []" "nslots (state_of (snd (create ''a'' None ?st))) = 3"
    by code_simp+
  have a0: "active new_Speaker = None" by (simp add: new_Speaker_def)
  show ?thesis
    using create_registers_and_prepares[OF refl refl, where u="''a''" and opts=None and st="?st"]
      h n k
      create_registers_and_prepares[OF refl refl, where u="''a''" and opts=None
        and st=new_Speaker] a0
    by simp
qed

text \<open>
  C6 as stated fails: slots exist and the preparing slot holds the clip of Sound 1, not
  silence; \<open>create\<close> of a second Sound does not record its URL as the pending URL (it stays
  \<open>null\<close>) and requests nothing.
\<close>

theorem create_while_preparing_is_busy:
  "active (run (prepared opts_all) new_Speaker) = Some 0
   \<and> preparing (run (prepared opts_all) new_Speaker) = Some 3
   \<and> src (audio (slots (run (prepared opts_all) new_Speaker) 3)) = Some ''a''
   \<and> prepareWhenReady (run (prepared opts_all) new_Speaker) = None
   \<and> prepareWhenReady (state_of (snd (create ''b'' None (run (prepared opts_all) new_Speaker)))) = None
   \<and> promises (state_of (snd (create ''b'' None (run (prepared opts_all) new_Speaker)))) = []"
  by code_simp

subsection \<open>Where the code departs from the documented behaviour\<close>

text \<open>
  C5. The header of the source documents the order of a Sound's events as
  \<open>( play -> ( pause | play )* -> )? finish\<close>. Sound 1 is never destroyed in what
  follows. On \<open>double_play\<close> and \<open>double_play_howl\<close> its subscribers receive \<open>play\<close>, then
  \<open>finish\<close>, then \<open>play\<close> again: the second \<open>assemblePlay\<close> finds the Sound bound to the
  slot it swaps out and finishes it, then starts it anew. On \<open>resume_then_skip\<close> they
  receive \<open>play\<close>, \<open>pause\<close>, \<open>finish\<close> and then \<open>play\<close>: the \<open>.then\<close> of the resume
  branch triggers \<open>play\<close> without looking whether the Sound is still the active one.
\<close>

theorem play_delivered_after_finish:
  "heard 1 (run double_play new_Speaker) = [Play, Finish, Play]
   \<and> 1 \<in> set (outstandingSounds (run double_play new_Speaker))
   \<and> heard 1 (run double_play_howl new_Speaker) = [Play, Pause, Finish, Play, Pause]
   \<and> 1 \<in> set (outstandingSounds (run double_play_howl new_Speaker))
   \<and> heard 1 (run resume_then_skip new_Speaker) = [Play, Pause, Finish, Play]
   \<and> 1 \<in> set (outstandingSounds (run resume_then_skip new_Speaker))"
  by code_simp

text \<open>The AudioContext variant of \<open>_destroySound\<close> leaves every slot as it is when the
  Sound is not the one bound to the active slot; it unregisters and unsubscribes it.\<close>

lemma destroySound'_leaves_active:
  assumes "active st = Some a" and "sound (slots st a) \<noteq> Some s"
  shows "slots (destroySound' s st) = slots st"
    and "s \<notin> set (outstandingSounds (destroySound' s st))"
    and "callbacks (sounds (destroySound' s st) s) = []"
  using assms by (simp_all add: destroySound'_def Let_def prim_defs)

text \<open>
  C7. Sound 1 is bound to the active slot 3 and playing; Sound 2 is registered and bound
  nowhere. Destroying Sound 2 with the Howl variant of \<open>_destroySound\<close> pauses the active
  player; the AudioContext variant leaves it playing. The same on a speaker of the Howl
  variant (\<open>howl_playing_and_another\<close>): the Howl of Sound 1 plays before the call and
  does not after it.
\<close>

theorem howl_destroy_pauses_active:
  "active playing_and_another = Some 3
   \<and> sound (slots playing_and_another 3) = Some 1
   \<and> outstandingSounds playing_and_another = [1, 2]
   \<and> paused (audio (slots playing_and_another 3)) = False
   \<and> paused (audio (slots (destroySound_howl 2 playing_and_another) 3)) = True
   \<and> paused (audio (slots (destroySound' 2 playing_and_another) 3)) = False
   \<and> active howl_playing_and_another = Some 3
   \<and> sound (slots howl_playing_and_another 3) = Some 1
   \<and> outstandingSounds howl_playing_and_another = [1, 2]
   \<and> playing (audio (slots howl_playing_and_another 3))
   \<and> \<not> playing (audio (slots (destroySound_howl 2 howl_playing_and_another) 3))"
  by code_simp

text \<open>\<open>_position\<close> reads 0 unless the Sound is bound to the active slot, also when no slot
  exists; \<open>_duration\<close> does so only when the active slot exists.\<close>

lemma position'_reads:
  "position' s st =
     (if \<exists>a. active st = Some a \<and> sound (slots st a) = Some s
      then (case currentTime (audio (slots st (the (active st)))) of
              Num t \<Rightarrow> Inr (Num (of_int \<lfloor>t * 1000\<rfloor>)) | _ \<Rightarrow> Inr NaN)
      else Inr (Num 0))"
  by (auto simp: position'_def split: option.splits)

lemma duration'_reads:
  "active st = Some a \<Longrightarrow> duration' s st =
     (if sound (slots st a) = Some s
      then (case duration (audio (slots st a)) of Num d \<Rightarrow> Inr \<lfloor>d * 1000\<rfloor> | _ \<Rightarrow> Inr 0)
      else Inr 0)"
  by (simp add: duration'_def)

text \<open>
  C9. On a speaker whose \<open>initializeAudio()\<close> has not been called, for the Sound just
  created: \<open>position()\<close> returns 0, and \<open>duration()\<close> throws a TypeError
  (\<open>this.active.sound\<close> with \<open>this.active === null\<close>) instead of returning 0.
\<close>

theorem duration_before_initializeAudio:
  "active (state_of (snd (create ''a'' None new_Speaker))) = None
   \<and> fst (create ''a'' None new_Speaker) = 1
   \<and> position' 1 (state_of (snd (create ''a'' None new_Speaker))) = Inr (Num 0)
   \<and> duration' 1 (state_of (snd (create ''a'' None new_Speaker))) = Inl NullDereference"
  by code_simp

end
